theory Spec2Isabelle
  imports Main "HOL-Library.Word"
begin

section \<open>Data model of 03-gfs/main.go\<close>

text \<open>
  The Go program has three roles: the \<open>Master\<close> (the spec's Coordinator), the
  \<open>Chunkserver\<close> (storage server) and the \<open>Client\<close>. Each HTTP handler is modelled as
  a function from the state it guards with its mutex, and the request's method and query
  parameter, to the HTTP response and the new state. A handler takes the query parameter
  as \<open>r.URL.Query().Get\<close> yields it (the empty string when it is missing); how the text
  a client puts into a URL becomes that parameter, and what JSON does to the strings of
  a response, is modelled between the client and the handlers.
\<close>

definition ChunkSize :: nat where
  "ChunkSize = 64 * 1024 * 1024"

definition ReplicationFactor :: nat where
  "ReplicationFactor = 3"

text \<open>\<open>LeaseEnd\<close> is a time in seconds.\<close>

record Chunk =
  Handle :: string
  Servers :: "string list"
  Version :: int
  Size :: int
  Primary :: string
  LeaseEnd :: int

text \<open>The field \<open>Size\<close> of \<open>FileInfo\<close> is \<open>FSize\<close> here, since \<open>Chunk\<close> has a \<open>Size\<close> too.\<close>

record FileInfo =
  Name :: string
  Chunks :: "string list"
  FSize :: int

text \<open>
  \<open>nextChunk\<close> is a Go \<open>int\<close>, 64 bits wide on 64-bit targets: \<open>m.nextChunk++\<close> wraps
  around. The mutex \<open>mu\<close> carries no data and is left out.
\<close>

record Master =
  files :: "string \<rightharpoonup> FileInfo"
  chunks :: "string \<rightharpoonup> Chunk"
  servers :: "string list"
  nextChunk :: "64 word"
  port :: int

definition NewMaster :: "int \<Rightarrow> Master" where
  "NewMaster p = \<lparr>files = Map.empty, chunks = Map.empty, servers = [], nextChunk = 1, port = p\<rparr>"

subsection \<open>HTTP responses\<close>

datatype status =
    StatusOK
  | StatusBadRequest
  | StatusNotFound
  | StatusMethodNotAllowed
  | StatusConflict
  | StatusServiceUnavailable

fun status_code :: "status \<Rightarrow> nat" where
  "status_code StatusOK = 200"
| "status_code StatusBadRequest = 400"
| "status_code StatusNotFound = 404"
| "status_code StatusMethodNotAllowed = 405"
| "status_code StatusConflict = 409"
| "status_code StatusServiceUnavailable = 503"

text \<open>
  The body of a response of the Master: nothing (\<open>w.WriteHeader\<close> only), the text
  of \<open>http.Error\<close>, a JSON chunk, or a JSON array of chunk pointers (\<open>None\<close> is a nil
  pointer, encoded as \<open>null\<close>).
\<close>

datatype body =
    NoBody
  | ErrorText string
  | JSONChunk Chunk
  | JSONChunks "Chunk option list"

type_synonym response = "status \<times> body"

text \<open>\<open>http.Error(w, msg, code)\<close> sends the message followed by a newline.\<close>

definition http_Error :: "string \<Rightarrow> status \<Rightarrow> response" where
  "http_Error msg code = (code, ErrorText (msg @ [CHR 0x0A]))"

subsection \<open>Formatting with \<open>%d\<close>\<close>

definition digit_char :: "nat \<Rightarrow> char" where
  "digit_char d = ''0123456789'' ! d"

fun digits :: "nat \<Rightarrow> string" where
  "digits n = (if n < 10 then [digit_char n] else digits (n div 10) @ [digit_char (n mod 10)])"

declare digits.simps [simp del]

definition sprint_d :: "int \<Rightarrow> string" where
  "sprint_d i = (if i < 0 then CHR ''-'' # digits (nat (- i)) else digits (nat i))"

text \<open>Reading a decimal numeral back, to show that \<open>%d\<close> loses nothing.\<close>

definition digits_value :: "string \<Rightarrow> nat" where
  "digits_value s = foldl (\<lambda>a c. 10 * a + (of_char c - 48)) 0 s"

text \<open>\<open>fmt.Sprintf("chunk_%d", n)\<close> for the signed 64-bit \<open>n\<close>.\<close>

definition chunk_name :: "64 word \<Rightarrow> string" where
  "chunk_name n = ''chunk_'' @ sprint_d (sint n)"

section \<open>The Master's handlers\<close>

text \<open>The loop of \<open>handleRegisterServer\<close> that looks for the address in \<open>m.servers\<close>.\<close>

fun registered :: "string list \<Rightarrow> string \<Rightarrow> bool" where
  "registered [] server = False"
| "registered (s # ss) server = (if s = server then True else registered ss server)"

definition handleRegisterServer :: "Master \<Rightarrow> string \<Rightarrow> string \<Rightarrow> response \<times> Master" where
  "handleRegisterServer m method server =
     (if method \<noteq> ''POST'' then (http_Error ''Method not allowed'' StatusMethodNotAllowed, m)
      else if server = [] then (http_Error ''Server address required'' StatusBadRequest, m)
      else if registered (servers m) server then ((StatusOK, NoBody), m)
      else ((StatusOK, NoBody), m\<lparr>servers := servers m @ [server]\<rparr>))"

definition handleCreateFile :: "Master \<Rightarrow> string \<Rightarrow> string \<Rightarrow> response \<times> Master" where
  "handleCreateFile m method filename =
     (if method \<noteq> ''POST'' then (http_Error ''Method not allowed'' StatusMethodNotAllowed, m)
      else if filename = [] then (http_Error ''Filename required'' StatusBadRequest, m)
      else case files m filename of
             Some file \<Rightarrow> (http_Error ''File already exists'' StatusConflict, m)
           | None \<Rightarrow>
               ((StatusOK, NoBody),
                m\<lparr>files := (files m)(filename \<mapsto> \<lparr>Name = filename, Chunks = [], FSize = 0\<rparr>)\<rparr>))"

text \<open>
  \<open>handleGetChunks\<close> does not look at the method. Its loop stores \<open>m.chunks[chunkHandle]\<close>
  for each handle of the file, a nil pointer for a handle the chunk table lacks.
\<close>

definition handleGetChunks :: "Master \<Rightarrow> string \<Rightarrow> response \<times> Master" where
  "handleGetChunks m filename =
     (if filename = [] then (http_Error ''Filename required'' StatusBadRequest, m)
      else case files m filename of
             None \<Rightarrow> (http_Error ''File not found'' StatusNotFound, m)
           | Some file \<Rightarrow> ((StatusOK, JSONChunks (map (chunks m) (Chunks file))), m))"

text \<open>
  The loop of \<open>selectServers\<close>: \<open>selected[i] = m.servers[i]\<close> while
  \<open>i < count && i < len(m.servers)\<close>.
\<close>

function select_loop :: "nat \<Rightarrow> nat \<Rightarrow> string list \<Rightarrow> string list \<Rightarrow> string list" where
  "select_loop i count srvs selected =
     (if i < count \<and> i < length srvs
      then select_loop (i + 1) count srvs (selected[i := srvs ! i])
      else selected)"
  by pat_completeness auto
termination
  by (relation "measure (\<lambda>(i, count, srvs, selected). count - i)") auto

declare select_loop.simps [simp del]

definition selectServers :: "Master \<Rightarrow> nat \<Rightarrow> string list" where
  "selectServers m count =
     (if length (servers m) < count then servers m
      else select_loop 0 count (servers m) (replicate count []))"

text \<open>
  \<open>handleAllocateChunk\<close> at the time \<open>now\<close> (\<open>time.Now()\<close>, in seconds). The counter
  is incremented before the servers are selected, so also when the selection is empty.
\<close>

definition handleAllocateChunk :: "Master \<Rightarrow> string \<Rightarrow> string \<Rightarrow> int \<Rightarrow> response \<times> Master" where
  "handleAllocateChunk m method filename now =
     (if method \<noteq> ''POST'' then (http_Error ''Method not allowed'' StatusMethodNotAllowed, m)
      else if filename = [] then (http_Error ''Filename required'' StatusBadRequest, m)
      else case files m filename of
             None \<Rightarrow> (http_Error ''File not found'' StatusNotFound, m)
           | Some file \<Rightarrow>
               (let chunkHandle = chunk_name (nextChunk m);
                    m1 = m\<lparr>nextChunk := nextChunk m + 1\<rparr>;
                    srvs = selectServers m1 ReplicationFactor
                in if length srvs = 0
                   then (http_Error ''No available servers'' StatusServiceUnavailable, m1)
                   else (let chunk = \<lparr>Handle = chunkHandle, Servers = srvs, Version = 1, Size = 0,
                                       Primary = srvs ! 0, LeaseEnd = now + 60\<rparr>
                         in ((StatusOK, JSONChunk chunk),
                             m1\<lparr>chunks := (chunks m1)(chunkHandle \<mapsto> chunk),
                                files := (files m1)(filename \<mapsto>
                                           file\<lparr>Chunks := Chunks file @ [chunkHandle]\<rparr>)\<rparr>))))"

text \<open>
  The routes of \<open>Master.start\<close>: a request names the handler, the method, the query
  parameter and, for \<open>/allocate\<close>, the time at which it is served. The mutex serialises
  the handlers, so a run of the Master is a list of requests served one after the other.
\<close>

datatype request =
    Register string string
  | Create string string
  | GetChunks string
  | Allocate string string int

fun serve :: "Master \<Rightarrow> request \<Rightarrow> response \<times> Master" where
  "serve m (Register method server) = handleRegisterServer m method server"
| "serve m (Create method filename) = handleCreateFile m method filename"
| "serve m (GetChunks filename) = handleGetChunks m filename"
| "serve m (Allocate method filename now) = handleAllocateChunk m method filename now"

fun run :: "Master \<Rightarrow> request list \<Rightarrow> Master" where
  "run m [] = m"
| "run m (r # rs) = run (snd (serve m r)) rs"

text \<open>AllocateChunk for one file, once for each time of the list, with the responses.\<close>

fun allocate_seq :: "Master \<Rightarrow> string \<Rightarrow> int list \<Rightarrow> response list \<times> Master" where
  "allocate_seq m filename [] = ([], m)"
| "allocate_seq m filename (t # ts) =
     (let (r, m1) = handleAllocateChunk m ''POST'' filename t;
          (rs, m2) = allocate_seq m1 filename ts
      in (r # rs, m2))"

text \<open>
  The chunk record that a successful \<open>handleAllocateChunk\<close> creates from the counter
  \<open>n\<close>, the registered servers and the time, and the records of successive allocations.
\<close>

definition new_chunk :: "64 word \<Rightarrow> string list \<Rightarrow> int \<Rightarrow> Chunk" where
  "new_chunk n srvs t =
     \<lparr>Handle = chunk_name n, Servers = take ReplicationFactor srvs, Version = 1, Size = 0,
      Primary = srvs ! 0, LeaseEnd = t + 60\<rparr>"

fun new_chunks :: "64 word \<Rightarrow> string list \<Rightarrow> int list \<Rightarrow> Chunk list" where
  "new_chunks n srvs [] = []"
| "new_chunks n srvs (t # ts) = new_chunk n srvs t # new_chunks (n + 1) srvs ts"

text \<open>The chunk table after the records of a list were stored in it, one after the other.\<close>

fun store_chunks :: "(string \<rightharpoonup> Chunk) \<Rightarrow> Chunk list \<Rightarrow> (string \<rightharpoonup> Chunk)" where
  "store_chunks tb [] = tb"
| "store_chunks tb (c # cs) = store_chunks (tb(Handle c \<mapsto> c)) cs"

text \<open>
  The invariant of the two tables: every handle in the chunk list of a file has a record
  in the chunk table.
\<close>

definition chunk_refs_ok :: "Master \<Rightarrow> bool" where
  "chunk_refs_ok m \<longleftrightarrow>
     (\<forall>name file. files m name = Some file \<longrightarrow> (\<forall>h \<in> set (Chunks file). chunks m h \<noteq> None))"

section \<open>Library functions between the client and the handlers\<close>

text \<open>
  The client formats a parameter into the URL as it is, without escaping it
  (\<open>fmt.Sprintf("http://%s/create?file=%s", c.master, filename)\<close> and the like), and the
  handler reads \<open>r.URL.Query().Get\<close>. What the handler receives is what \<open>net/url\<close> and
  \<open>net/http\<close> make of the text; this section follows them.
\<close>

subsection \<open>Strings\<close>

text \<open>\<open>strings.Split\<close> and \<open>strings.Cut\<close> at a separator of one byte.\<close>

fun split_on :: "char \<Rightarrow> string \<Rightarrow> string list" where
  "split_on c [] = [[]]"
| "split_on c (x # xs) =
     (if x = c then [] # split_on c xs
      else (case split_on c xs of [] \<Rightarrow> [[x]] | y # ys \<Rightarrow> (x # y) # ys))"

definition strings_Cut :: "char \<Rightarrow> string \<Rightarrow> string \<times> string" where
  "strings_Cut c s = (takeWhile (\<lambda>x. x \<noteq> c) s, drop 1 (dropWhile (\<lambda>x. x \<noteq> c) s))"

subsection \<open>The query of a URL\<close>

text \<open>\<open>stringContainsCTLByte\<close>: a byte below 0x20, or 0x7f.\<close>

definition is_ctl :: "char \<Rightarrow> bool" where
  "is_ctl c \<longleftrightarrow> (of_char c :: nat) < 32 \<or> (of_char c :: nat) = 127"

definition ishex :: "char \<Rightarrow> bool" where
  "ishex c \<longleftrightarrow> c \<in> set ''0123456789abcdefABCDEF''"

definition unhex :: "char \<Rightarrow> nat" where
  "unhex c =
     (let n = (of_char c :: nat)
      in if 48 \<le> n \<and> n \<le> 57 then n - 48
         else if 97 \<le> n \<and> n \<le> 102 then n - 97 + 10
         else if 65 \<le> n \<and> n \<le> 70 then n - 65 + 10
         else 0)"

text \<open>
  \<open>url.unescape\<close>: its first pass fails at a \<open>%\<close> that is not followed by two hex
  digits; its second pass, for a query component, decodes \<open>%XX\<close> and turns \<open>+\<close> into a
  space.
\<close>

fun valid_escapes :: "string \<Rightarrow> bool" where
  "valid_escapes [] = True"
| "valid_escapes (c # cs) =
     (if c = CHR ''%''
      then (case cs of h1 # h2 # rest \<Rightarrow> ishex h1 \<and> ishex h2 \<and> valid_escapes rest | _ \<Rightarrow> False)
      else valid_escapes cs)"

fun unescape_query :: "string \<Rightarrow> string" where
  "unescape_query [] = []"
| "unescape_query (c # cs) =
     (if c = CHR ''%''
      then (case cs of
              h1 # h2 # rest \<Rightarrow> char_of (16 * unhex h1 + unhex h2) # unescape_query rest
            | _ \<Rightarrow> [])
      else if c = CHR ''+'' then CHR '' '' # unescape_query cs
      else c # unescape_query cs)"

definition QueryUnescape :: "string \<Rightarrow> string option" where
  "QueryUnescape s = (if valid_escapes s then Some (unescape_query s) else None)"

text \<open>
  \<open>url.ParseQuery\<close> (Go 1.17 and later), whose error \<open>Query\<close> drops: the raw query is
  cut at each \<open>&\<close>; a piece that has a semicolon, is empty, or whose key or value does
  not unescape is skipped; the others are cut at the first \<open>=\<close>. \<open>Get\<close> returns the first value of the
  key, or the empty string.
\<close>

definition query_pair :: "string \<Rightarrow> (string \<times> string) option" where
  "query_pair piece =
     (if CHR '';'' \<in> set piece then None
      else if piece = [] then None
      else (let (k, v) = strings_Cut (CHR ''='') piece
            in case QueryUnescape k of
                 None \<Rightarrow> None
               | Some key \<Rightarrow>
                   (case QueryUnescape v of None \<Rightarrow> None | Some val \<Rightarrow> Some (key, val))))"

definition ParseQuery :: "string \<Rightarrow> (string \<times> string) list" where
  "ParseQuery q = List.map_filter query_pair (split_on (CHR ''&'') q)"

definition Query_Get :: "string \<Rightarrow> string \<Rightarrow> string" where
  "Query_Get q key = (case map_of (ParseQuery q) key of None \<Rightarrow> [] | Some v \<Rightarrow> v)"

text \<open>
  What becomes of a request whose URL ends in \<open>?key=v\<close>, with \<open>v\<close> pasted in by the
  client. \<open>url.Parse\<close> (in \<open>http.Post\<close> and \<open>http.Get\<close>) cuts the fragment off at the
  first \<open>#\<close>, refuses a control byte before it and refuses a fragment that does not
  unescape: then the call returns an error and nothing is sent (\<open>PostError\<close>). The raw query goes into the
  request line as it is; a space in it makes the line malformed and the server answers
  400 Bad Request before any handler runs (\<open>Refused\<close>). Otherwise the handler runs and
  \<open>Param\<close> is what \<open>r.URL.Query().Get(key)\<close> yields.
\<close>

datatype delivery = PostError | Refused | Param string

definition query_param :: "string \<Rightarrow> string \<Rightarrow> delivery" where
  "query_param key v =
     (let (u, frag) = strings_Cut (CHR ''#'') v
      in if list_ex is_ctl u then PostError
         else if \<not> valid_escapes frag then PostError
         else (let rawQuery = key @ ''='' @ u
               in if CHR '' '' \<in> set rawQuery then Refused
                  else Param (Query_Get rawQuery key)))"

text \<open>
  A value without control bytes, spaces and the characters \<open>#\<close>, \<open>&\<close>, \<open>;\<close>, \<open>%\<close> and \<open>+\<close>
  reaches the handler as it is.
\<close>

definition url_safe :: "string \<Rightarrow> bool" where
  "url_safe v \<longleftrightarrow> list_all (\<lambda>c. \<not> is_ctl c \<and> c \<notin> set '' #&;%+'') v"

subsection \<open>JSON\<close>

text \<open>
  \<open>encoding/json\<close> writes a string byte by byte where it is well-formed UTF-8 and writes
  U+FFFD for each byte at which \<open>utf8.DecodeRuneInString\<close> reports an error of size 1;
  decoding gives these bytes back. \<open>rune_len\<close> is the size of the well-formed encoding at
  the head of a string, 0 when there is none. Numbers and times come back as they were.
\<close>

definition in_range :: "nat \<Rightarrow> nat \<Rightarrow> char \<Rightarrow> bool" where
  "in_range lo hi c \<longleftrightarrow> lo \<le> (of_char c :: nat) \<and> (of_char c :: nat) \<le> hi"

definition rune_len :: "string \<Rightarrow> nat" where
  "rune_len s =
     (case s of
        [] \<Rightarrow> 0
      | c # cs \<Rightarrow>
          (let b = (of_char c :: nat)
           in if b < 0x80 then 1
              else if 0xC2 \<le> b \<and> b \<le> 0xDF
              then (case cs of c1 # r1 \<Rightarrow> if in_range 0x80 0xBF c1 then 2 else 0 | _ \<Rightarrow> 0)
              else if 0xE0 \<le> b \<and> b \<le> 0xEF
              then (case cs of
                      c1 # c2 # r2 \<Rightarrow>
                        if in_range (if b = 0xE0 then 0xA0 else 0x80)
                                    (if b = 0xED then 0x9F else 0xBF) c1
                           \<and> in_range 0x80 0xBF c2
                        then 3 else 0
                    | _ \<Rightarrow> 0)
              else if 0xF0 \<le> b \<and> b \<le> 0xF4
              then (case cs of
                      c1 # c2 # c3 # r3 \<Rightarrow>
                        if in_range (if b = 0xF0 then 0x90 else 0x80)
                                    (if b = 0xF4 then 0x8F else 0xBF) c1
                           \<and> in_range 0x80 0xBF c2 \<and> in_range 0x80 0xBF c3
                        then 4 else 0
                    | _ \<Rightarrow> 0)
              else 0))"

text \<open>\<open>json_copy k\<close> copies \<open>k\<close> bytes of a rune already found well-formed, then goes on.\<close>

fun json_copy :: "nat \<Rightarrow> string \<Rightarrow> string" where
  "json_copy k [] = []"
| "json_copy (Suc k) (c # cs) = c # json_copy k cs"
| "json_copy 0 (c # cs) =
     (case rune_len (c # cs) of
        0 \<Rightarrow> [CHR 0xEF, CHR 0xBF, CHR 0xBD] @ json_copy 0 cs
      | Suc n \<Rightarrow> c # json_copy n cs)"

definition json_string :: "string \<Rightarrow> string" where
  "json_string s = json_copy 0 s"

subsection \<open>File paths\<close>

text \<open>
  \<open>filepath.Clean\<close> and \<open>filepath.Join\<close> on Unix. \<open>clean_elems\<close> goes through the
  elements between slashes with the elements kept so far, last first: it drops empty
  elements and \<open>.\<close>, lets \<open>..\<close> remove the element before it, and keeps a \<open>..\<close> that has
  nothing to remove unless the path is rooted.
\<close>

fun clean_elems :: "bool \<Rightarrow> string list \<Rightarrow> string list \<Rightarrow> string list" where
  "clean_elems rooted out [] = rev out"
| "clean_elems rooted out (e # es) =
     (if e = [] \<or> e = ''.'' then clean_elems rooted out es
      else if e = ''..''
      then (case out of
              [] \<Rightarrow> if rooted then clean_elems rooted out es else clean_elems rooted [e] es
            | prev # rest \<Rightarrow>
                if prev = ''..'' then clean_elems rooted (e # out) es
                else clean_elems rooted rest es)
      else clean_elems rooted (e # out) es)"

fun join_slash :: "string list \<Rightarrow> string" where
  "join_slash [] = []"
| "join_slash [e] = e"
| "join_slash (e # es) = e @ ''/'' @ join_slash es"

definition Clean :: "string \<Rightarrow> string" where
  "Clean path =
     (case path of
        [] \<Rightarrow> ''.''
      | c # cs \<Rightarrow>
          (let rooted = (c = CHR ''/'');
               kept = join_slash (clean_elems rooted [] (split_on (CHR ''/'') path))
           in if rooted then CHR ''/'' # kept
              else if kept = [] then ''.''
              else kept))"

definition filepath_Join :: "string \<Rightarrow> string \<Rightarrow> string" where
  "filepath_Join dir name =
     (if dir \<noteq> [] then Clean (dir @ ''/'' @ name)
      else if name \<noteq> [] then Clean name
      else [])"

section \<open>The Chunkserver's handlers\<close>

text \<open>
  \<open>cs_chunks\<close> is the field \<open>chunks\<close> (the in-memory cache) and \<open>cs_master\<close> the field
  \<open>master\<close> of the Go struct. The directory of a chunkserver is a map from file paths to
  file contents.
\<close>

record Chunkserver =
  address :: string
  cs_chunks :: "string \<rightharpoonup> string"
  cs_master :: string
  dataDir :: string

type_synonym disk = "string \<rightharpoonup> string"

definition NewChunkserver :: "string \<Rightarrow> string \<Rightarrow> Chunkserver" where
  "NewChunkserver addr mst =
     \<lparr>address = addr, cs_chunks = Map.empty, cs_master = mst,
      dataDir = ''chunkserver_'' @ map (\<lambda>c. if c = CHR '':'' then CHR ''_'' else c) addr\<rparr>"

text \<open>
  The lines a process logs. \<open>LogDiskWriteFailed\<close> is "Failed to write chunk to disk",
  \<open>LogStored h n a\<close> is "Stored chunk h (n bytes) on a", \<open>LogWriteToServerFailed s\<close> is
  "Failed to write to server s" and \<open>LogWrote f n\<close> is "Wrote file f (n bytes)".
\<close>

datatype log_entry =
    LogDiskWriteFailed
  | LogStored string nat string
  | LogWriteToServerFailed string
  | LogWrote string nat

text \<open>
  What \<open>os.WriteFile\<close> does is the environment's choice: it succeeds, or it fails and
  leaves the file absent or with some content (the old one when the file could not be
  opened, a truncated one otherwise).
\<close>

datatype write_outcome = WriteOK | WriteErr "string option"

text \<open>
  \<open>handleWrite\<close>: the body is \<open>None\<close> when \<open>io.ReadAll(r.Body)\<close> fails. The response of
  a chunkserver is a status and the raw bytes of the body.
\<close>

definition handleWrite ::
  "Chunkserver \<Rightarrow> disk \<Rightarrow> string \<Rightarrow> string \<Rightarrow> string option \<Rightarrow> write_outcome
     \<Rightarrow> (status \<times> string) \<times> log_entry list \<times> Chunkserver \<times> disk" where
  "handleWrite cs dk method chunkHandle body wr =
     (if method \<noteq> ''POST'' then ((StatusMethodNotAllowed, ''Method not allowed'' @ [CHR 0x0A]), [], cs, dk)
      else if chunkHandle = [] then ((StatusBadRequest, ''Chunk handle required'' @ [CHR 0x0A]), [], cs, dk)
      else case body of
             None \<Rightarrow> ((StatusBadRequest, ''Failed to read data'' @ [CHR 0x0A]), [], cs, dk)
           | Some data \<Rightarrow>
               (let cs1 = cs\<lparr>cs_chunks := (cs_chunks cs)(chunkHandle \<mapsto> data)\<rparr>;
                    chunkPath = filepath_Join (dataDir cs) chunkHandle;
                    stored = LogStored chunkHandle (length data) (address cs)
                in case wr of
                     WriteOK \<Rightarrow> ((StatusOK, []), [stored], cs1, dk(chunkPath \<mapsto> data))
                   | WriteErr left \<Rightarrow>
                       ((StatusOK, []), [LogDiskWriteFailed, stored], cs1, dk(chunkPath := left))))"

text \<open>\<open>handleRead\<close>: memory first, then disk, caching what the disk had.\<close>

definition handleRead ::
  "Chunkserver \<Rightarrow> disk \<Rightarrow> string \<Rightarrow> (status \<times> string) \<times> Chunkserver" where
  "handleRead cs dk chunkHandle =
     (if chunkHandle = [] then ((StatusBadRequest, ''Chunk handle required'' @ [CHR 0x0A]), cs)
      else case cs_chunks cs chunkHandle of
             Some data \<Rightarrow> ((StatusOK, data), cs)
           | None \<Rightarrow>
               (case dk (filepath_Join (dataDir cs) chunkHandle) of
                  None \<Rightarrow> ((StatusNotFound, ''Chunk not found'' @ [CHR 0x0A]), cs)
                | Some diskData \<Rightarrow>
                    ((StatusOK, diskData),
                     cs\<lparr>cs_chunks := (cs_chunks cs)(chunkHandle \<mapsto> diskData)\<rparr>)))"

section \<open>The Client\<close>

text \<open>
  The system a client talks to: the Master at the address \<open>c.master\<close>, and the
  chunkserver processes with their directories, by address. The environment of one
  client call says whether its requests get to the Master's HTTP server (\<open>mreach\<close>: the
  network delivers them and the server accepts their size) and whether the requests to
  \<open>http://a/write\<close> and \<open>http://a/read\<close> get to the chunkserver of the address \<open>a\<close>
  (\<open>reach\<close>), what \<open>os.WriteFile\<close> does at a server for a path (\<open>diskw\<close>) and
  what time the Master reads (\<open>clock\<close>). A request that is not delivered, or that
  is sent to an address with no chunkserver, makes \<open>http.Post\<close> or \<open>http.Get\<close> return an
  error and leaves the receiver as it was.
\<close>

record World =
  master :: Master
  nodes :: "string \<rightharpoonup> Chunkserver \<times> disk"

record Env =
  mreach :: bool
  reach :: "string \<Rightarrow> bool"
  diskw :: "string \<Rightarrow> string \<Rightarrow> write_outcome"
  clock :: int

datatype client_error =
    TransportError
  | StatusError string nat
  | DecodeError
  | NoServersError
  | NilPointerPanic

text \<open>
  Decoding the body of a response into a \<open>Chunk\<close> and into a \<open>[]*Chunk\<close>: the client
  gets the strings as JSON hands them on.
\<close>

definition json_chunk :: "Chunk \<Rightarrow> Chunk" where
  "json_chunk c =
     c\<lparr>Handle := json_string (Handle c), Servers := map json_string (Servers c),
       Primary := json_string (Primary c)\<rparr>"

fun decode_chunk :: "body \<Rightarrow> Chunk option" where
  "decode_chunk (JSONChunk c) = Some (json_chunk c)"
| "decode_chunk b = None"

fun decode_chunks :: "body \<Rightarrow> Chunk option list option" where
  "decode_chunks (JSONChunks cs) = Some (map (map_option json_chunk) cs)"
| "decode_chunks b = None"

text \<open>
  A request of the client to the Master, with the file name pasted into the URL after
  \<open>?file=\<close>: \<open>None\<close> when \<open>http.Post\<close> or \<open>http.Get\<close> returns an error, otherwise the
  response, which is the server's own 400 when the request line is malformed and the
  handler's response for the parameter it receives otherwise.
\<close>

definition master_http ::
  "Env \<Rightarrow> (string \<Rightarrow> request) \<Rightarrow> string \<Rightarrow> Master \<Rightarrow> (response \<times> Master) option" where
  "master_http env route filename m =
     (if \<not> mreach env then None
      else case query_param ''file'' filename of
             PostError \<Rightarrow> None
           | Refused \<Rightarrow> Some ((StatusBadRequest, ErrorText ''400 Bad Request''), m)
           | Param q \<Rightarrow> Some (serve m (route q)))"

definition createFile :: "Env \<Rightarrow> string \<Rightarrow> World \<Rightarrow> client_error option \<times> World" where
  "createFile env filename w =
     (case master_http env (Create ''POST'') filename (master w) of
        None \<Rightarrow> (Some TransportError, w)
      | Some (resp, m') \<Rightarrow>
          (if fst resp \<noteq> StatusOK
           then Some (StatusError ''create failed with status'' (status_code (fst resp)))
           else None,
           w\<lparr>master := m'\<rparr>))"

text \<open>
  The POST of \<open>writeFile\<close> to \<open>/write\<close> at one server, and the GET of \<open>readFile\<close> to
  \<open>/read\<close>, with the chunk handle pasted into the URL after \<open>?chunk=\<close>.
\<close>

definition post_write ::
  "Env \<Rightarrow> string \<Rightarrow> string \<Rightarrow> string \<Rightarrow> (string \<rightharpoonup> Chunkserver \<times> disk)
     \<Rightarrow> ((status \<times> string) \<times> (string \<rightharpoonup> Chunkserver \<times> disk)) option" where
  "post_write env server chunkHandle data ns =
     (if \<not> reach env server then None
      else case ns server of
             None \<Rightarrow> None
           | Some (cs, dk) \<Rightarrow>
               (case query_param ''chunk'' chunkHandle of
                  PostError \<Rightarrow> None
                | Refused \<Rightarrow> Some ((StatusBadRequest, ''400 Bad Request''), ns)
                | Param h \<Rightarrow>
                    (let (resp, lg, cs', dk') =
                           handleWrite cs dk ''POST'' h (Some data)
                             (diskw env server (filepath_Join (dataDir cs) h))
                     in Some (resp, ns(server \<mapsto> (cs', dk'))))))"

definition get_read ::
  "Env \<Rightarrow> string \<Rightarrow> string \<Rightarrow> (string \<rightharpoonup> Chunkserver \<times> disk)
     \<Rightarrow> ((status \<times> string) \<times> (string \<rightharpoonup> Chunkserver \<times> disk)) option" where
  "get_read env server chunkHandle ns =
     (if \<not> reach env server then None
      else case ns server of
             None \<Rightarrow> None
           | Some (cs, dk) \<Rightarrow>
               (case query_param ''chunk'' chunkHandle of
                  PostError \<Rightarrow> None
                | Refused \<Rightarrow> Some ((StatusBadRequest, ''400 Bad Request''), ns)
                | Param h \<Rightarrow>
                    (let (resp, cs') = handleRead cs dk h
                     in Some (resp, ns(server \<mapsto> (cs', dk))))))"

text \<open>
  The loop of \<open>writeFile\<close> over \<open>chunk.Servers\<close>: an error of \<open>http.Post\<close> is logged and
  the loop goes on; the response of a server that answered is closed unread.
\<close>

fun write_replicas ::
  "Env \<Rightarrow> string \<Rightarrow> string \<Rightarrow> string list \<Rightarrow> (string \<rightharpoonup> Chunkserver \<times> disk)
     \<Rightarrow> log_entry list \<times> (string \<rightharpoonup> Chunkserver \<times> disk)" where
  "write_replicas env chunkHandle data [] ns = ([], ns)"
| "write_replicas env chunkHandle data (server # rest) ns =
     (case post_write env server chunkHandle data ns of
        None \<Rightarrow>
          (let (lg, ns') = write_replicas env chunkHandle data rest ns
           in (LogWriteToServerFailed server # lg, ns'))
      | Some (writeResp, ns1) \<Rightarrow> write_replicas env chunkHandle data rest ns1)"

text \<open>
  \<open>writeFile\<close> returns Go's \<open>error\<close> (\<open>None\<close> is \<open>nil\<close>), the lines the client logged and
  the system after the call. The result of \<open>createFile\<close> is dropped.
\<close>

definition writeFile ::
  "Env \<Rightarrow> string \<Rightarrow> string \<Rightarrow> World \<Rightarrow> client_error option \<times> log_entry list \<times> World" where
  "writeFile env filename data w =
     (let (created, w1) = createFile env filename w
      in case master_http env (\<lambda>q. Allocate ''POST'' q (clock env)) filename (master w1) of
           None \<Rightarrow> (Some TransportError, [], w1)
         | Some (resp, m') \<Rightarrow>
             (let w2 = w1\<lparr>master := m'\<rparr>
              in if fst resp \<noteq> StatusOK
                 then (Some (StatusError ''chunk allocation failed with status''
                               (status_code (fst resp))), [], w2)
                 else case decode_chunk (snd resp) of
                        None \<Rightarrow> (Some DecodeError, [], w2)
                      | Some chunk \<Rightarrow>
                          (let (lg, ns') =
                                 write_replicas env (Handle chunk) data (Servers chunk) (nodes w2)
                           in (None, lg @ [LogWrote filename (length data)],
                               w2\<lparr>nodes := ns'\<rparr>))))"

text \<open>
  \<open>readFile\<close> returns the content or the error, and the system after the call (a read
  can fill a server's cache). It does not look at the status of the chunkserver's
  response: the body is the content. A nil first chunk is a nil-pointer panic.
\<close>

definition readFile :: "Env \<Rightarrow> string \<Rightarrow> World \<Rightarrow> (client_error + string) \<times> World" where
  "readFile env filename w =
     (case master_http env GetChunks filename (master w) of
        None \<Rightarrow> (Inl TransportError, w)
      | Some (resp, m') \<Rightarrow>
          (let w1 = w\<lparr>master := m'\<rparr>
           in if fst resp \<noteq> StatusOK
              then (Inl (StatusError ''failed to get chunks with status''
                           (status_code (fst resp))), w1)
              else case decode_chunks (snd resp) of
                     None \<Rightarrow> (Inl DecodeError, w1)
                   | Some [] \<Rightarrow> (Inr [], w1)
                   | Some (None # rest) \<Rightarrow> (Inl NilPointerPanic, w1)
                   | Some (Some chunk # rest) \<Rightarrow>
                       (case Servers chunk of
                          [] \<Rightarrow> (Inl NoServersError, w1)
                        | server # others \<Rightarrow>
                            (case get_read env server (Handle chunk) (nodes w1) of
                               None \<Rightarrow> (Inl TransportError, w1)
                             | Some (readResp, ns') \<Rightarrow>
                                 (Inr (snd readResp), w1\<lparr>nodes := ns'\<rparr>)))))"

text \<open>A server holds the bytes \<open>d\<close> for the handle \<open>h\<close> in its in-memory cache.\<close>

definition holds_chunk ::
  "(string \<rightharpoonup> Chunkserver \<times> disk) \<Rightarrow> string \<Rightarrow> string \<Rightarrow> string \<Rightarrow> bool" where
  "holds_chunk ns s h d \<longleftrightarrow> (case ns s of None \<Rightarrow> False | Some (cs, dk) \<Rightarrow> cs_chunks cs h = Some d)"

subsection \<open>Example systems\<close>

text \<open>
  Environments in which every request is delivered and every disk write succeeds, and
  in which no storage server can be reached; a Master with the file \<open>f\<close> and no server;
  a system of one chunkserver and one of three.
\<close>

definition all_up :: Env where
  "all_up = \<lparr>mreach = True, reach = (\<lambda>s. True), diskw = (\<lambda>s path. WriteOK), clock = 0\<rparr>"

definition replicas_down :: Env where
  "replicas_down = \<lparr>mreach = True, reach = (\<lambda>s. False), diskw = (\<lambda>s path. WriteOK), clock = 0\<rparr>"

definition no_server_master :: Master where
  "no_server_master = snd (handleCreateFile (NewMaster 8080) ''POST'' ''f'')"

definition one_server_world :: World where
  "one_server_world =
     \<lparr>master = snd (handleRegisterServer (NewMaster 8080) ''POST'' ''s1''),
      nodes = [''s1'' \<mapsto> (NewChunkserver ''s1'' ''m'', Map.empty)]\<rparr>"

definition three_server_world :: World where
  "three_server_world =
     \<lparr>master = run (NewMaster 8080)
                 [Register ''POST'' ''s1'', Register ''POST'' ''s2'', Register ''POST'' ''s3''],
      nodes = [''s1'' \<mapsto> (NewChunkserver ''s1'' ''m'', Map.empty),
               ''s2'' \<mapsto> (NewChunkserver ''s2'' ''m'', Map.empty),
               ''s3'' \<mapsto> (NewChunkserver ''s3'' ''m'', Map.empty)]\<rparr>"

text \<open>The system of one chunkserver after a client wrote \<open>a\<close> to the file \<open>f\<close>.\<close>

definition written_once_world :: World where
  "written_once_world = snd (snd (writeFile all_up ''f'' ''a'' one_server_world))"

text \<open>A system with no chunkserver whose Master has the file \<open>f\<close> without chunks.\<close>

definition empty_file_world :: World where
  "empty_file_world = \<lparr>master = no_server_master, nodes = Map.empty\<rparr>"

text \<open>A Master with two servers and the file \<open>f\<close>, and one with one server.\<close>

definition two_server_master :: Master where
  "two_server_master =
     run (NewMaster 8080) [Register ''POST'' ''s1'', Register ''POST'' ''s2'', Create ''POST'' ''f'']"

definition one_server_master :: Master where
  "one_server_master = run (NewMaster 8080) [Register ''POST'' ''s1'', Create ''POST'' ''f'']"

text \<open>
  A system whose Master has the file \<open>a b\<close>, created by a client under the path \<open>a+b\<close>.
\<close>

definition spaced_file_world :: World where
  "spaced_file_world =
     snd (createFile all_up ''a+b'' \<lparr>master = NewMaster 8080, nodes = Map.empty\<rparr>)"

section \<open>Properties of the Master\<close>

lemma registered_iff: "registered ss a \<longleftrightarrow> a \<in> set ss"
  by (induction ss) auto

lemma select_loop_take:
  "i \<le> count \<Longrightarrow> count \<le> length srvs \<Longrightarrow> length selected = count \<Longrightarrow>
   take i selected = take i srvs \<Longrightarrow>
   select_loop i count srvs selected = take count srvs"
proof (induction i count srvs selected rule: select_loop.induct)
  case (1 i count srvs selected)
  show ?case
  proof (cases "i < count")
    case True
    have step: "take (i + 1) (selected[i := srvs ! i]) = take (i + 1) srvs"
      using True 1(3,4,5)
      by (simp add: take_Suc_conv_app_nth)
    have "select_loop (i + 1) count srvs (selected[i := srvs ! i]) = take count srvs"
      using True 1(3,4) step by (intro 1(1)) auto
    then show ?thesis
      using True 1(3) by (subst select_loop.simps) simp
  next
    case False
    then have "i = count" using 1(2) by simp
    then show ?thesis
      using 1(4,5) by (subst select_loop.simps) simp
  qed
qed

lemma selectServers_take: "selectServers m count = take count (servers m)"
  by (simp add: selectServers_def select_loop_take)

lemma selectServers_bump [simp]:
  "selectServers (m\<lparr>nextChunk := n\<rparr>) count = selectServers m count"
  by (simp add: selectServers_take)

text \<open>
  What every state reached from the new Master has: no file under the empty path, no
  empty server address, and no address registered twice.
\<close>

lemma serve_well_formed:
  assumes "files m [] = None" and "[] \<notin> set (servers m)" and "distinct (servers m)"
  shows "files (snd (serve m r)) [] = None \<and> [] \<notin> set (servers (snd (serve m r)))
       \<and> distinct (servers (snd (serve m r)))"
proof (cases r)
  case (Register meth server)
  then show ?thesis
    using assms by (auto simp: handleRegisterServer_def registered_iff)
next
  case (Create meth filename)
  then show ?thesis
    using assms by (auto simp: handleCreateFile_def split: option.splits)
next
  case (GetChunks filename)
  then show ?thesis
    using assms by (auto simp: handleGetChunks_def split: option.splits)
next
  case (Allocate meth filename t)
  then show ?thesis
    using assms
    by (auto simp: handleAllocateChunk_def Let_def selectServers_take split: option.splits)
qed

lemma run_well_formed:
  assumes "files m [] = None" and "[] \<notin> set (servers m)" and "distinct (servers m)"
  shows "files (run m rs) [] = None \<and> [] \<notin> set (servers (run m rs))
       \<and> distinct (servers (run m rs))"
  using assms
proof (induction rs arbitrary: m)
  case Nil
  then show ?case by simp
next
  case (Cons r rs)
  then show ?case
    using serve_well_formed [of m r] by simp
qed

lemma NewMaster_run_well_formed:
  "files (run (NewMaster pt) rs) [] = None \<and> [] \<notin> set (servers (run (NewMaster pt) rs))
 \<and> distinct (servers (run (NewMaster pt) rs))"
  by (rule run_well_formed) (simp_all add: NewMaster_def)

lemmas eval_defs =
  all_up_def replicas_down_def one_server_world_def three_server_world_def no_server_master_def
  one_server_master_def two_server_master_def written_once_world_def empty_file_world_def
  writeFile_def readFile_def createFile_def
  handleCreateFile_def handleAllocateChunk_def handleRegisterServer_def NewMaster_def
  handleGetChunks_def selectServers_take ReplicationFactor_def post_write_def get_read_def
  handleWrite_def handleRead_def NewChunkserver_def filepath_Join_def Let_def http_Error_def
  chunk_name_def sprint_d_def digits.simps digit_char_def

lemma count_list_distinct:
  "distinct xs \<Longrightarrow> count_list xs a = (if a \<in> set xs then 1 else 0)"
  by (induction xs) auto

text \<open>
  C5. RegisterServer is idempotent. For a server address \<open>a\<close> (a non-empty string: the
  handler reads the empty string as a missing parameter) and any state \<open>m\<close> of the Master,
  the first call answers 200, a second call answers 200 as well and leaves the state of
  the first call as it is, so the list of servers has the same length; \<open>a\<close> is in the
  list, and it is there once whenever the list had no duplicates before.
\<close>

theorem RegisterServer_idempotent:
  assumes "a \<noteq> []"
  shows "fst (handleRegisterServer m ''POST'' a) = (StatusOK, NoBody)
       \<and> handleRegisterServer (snd (handleRegisterServer m ''POST'' a)) ''POST'' a
           = ((StatusOK, NoBody), snd (handleRegisterServer m ''POST'' a))
       \<and> set (servers (snd (handleRegisterServer m ''POST'' a))) = insert a (set (servers m))
       \<and> (distinct (servers m) \<longrightarrow>
            distinct (servers (snd (handleRegisterServer m ''POST'' a)))
          \<and> count_list (servers (snd (handleRegisterServer m ''POST'' a))) a = 1)"
  using assms
  by (auto simp: handleRegisterServer_def registered_iff count_list_distinct)

theorem RegisterServer_idempotent_witness:
  "''localhost:8081'' \<noteq> []
 \<and> fst (handleRegisterServer (NewMaster 8080) ''POST'' ''localhost:8081'') = (StatusOK, NoBody)
 \<and> handleRegisterServer (snd (handleRegisterServer (NewMaster 8080) ''POST'' ''localhost:8081''))
      ''POST'' ''localhost:8081''
    = ((StatusOK, NoBody), snd (handleRegisterServer (NewMaster 8080) ''POST'' ''localhost:8081''))
 \<and> servers (snd (handleRegisterServer (NewMaster 8080) ''POST'' ''localhost:8081''))
    = [''localhost:8081'']"
  using RegisterServer_idempotent [of "''localhost:8081''" "NewMaster 8080"]
  by (simp add: handleRegisterServer_def NewMaster_def)

text \<open>
  C3. For a known path (a non-empty \<open>p\<close> with a \<open>FileInfo\<close>), AllocateChunk answers 503
  Service Unavailable when no server is registered; otherwise it answers 200 with a
  chunk whose replica list is the first \<open>ReplicationFactor\<close> registered servers, of
  length \<open>min ReplicationFactor (length (servers m))\<close>, and that chunk is the record
  stored under its handle.
\<close>

theorem AllocateChunk_replica_count:
  assumes "p \<noteq> []" and "files m p = Some f"
  shows "(servers m = [] \<longrightarrow>
            fst (handleAllocateChunk m ''POST'' p t)
              = http_Error ''No available servers'' StatusServiceUnavailable
          \<and> status_code (fst (fst (handleAllocateChunk m ''POST'' p t))) = 503)
       \<and> (servers m \<noteq> [] \<longrightarrow>
            (\<exists>c. fst (handleAllocateChunk m ''POST'' p t) = (StatusOK, JSONChunk c)
               \<and> Servers c = take ReplicationFactor (servers m)
               \<and> length (Servers c) = min ReplicationFactor (length (servers m))
               \<and> chunks (snd (handleAllocateChunk m ''POST'' p t)) (Handle c) = Some c))"
  using assms
  by (auto simp: handleAllocateChunk_def Let_def selectServers_take http_Error_def
      ReplicationFactor_def)

theorem AllocateChunk_replica_count_witness:
  "''f'' \<noteq> []
 \<and> files two_server_master ''f'' = Some \<lparr>Name = ''f'', Chunks = [], FSize = 0\<rparr>
 \<and> servers two_server_master = [''s1'', ''s2'']
 \<and> (\<exists>c. fst (handleAllocateChunk two_server_master ''POST'' ''f'' 0) = (StatusOK, JSONChunk c)
        \<and> Servers c = [''s1'', ''s2'']
        \<and> length (Servers c) = 2)"
proof -
  have n: "''f'' \<noteq> []" by simp
  have f: "files two_server_master ''f'' = Some \<lparr>Name = ''f'', Chunks = [], FSize = 0\<rparr>"
    by (simp add: two_server_master_def eval_defs)
  have s: "servers two_server_master = [''s1'', ''s2'']"
    by (simp add: two_server_master_def eval_defs)
  have "\<exists>c. fst (handleAllocateChunk two_server_master ''POST'' ''f'' 0) = (StatusOK, JSONChunk c)
        \<and> Servers c = [''s1'', ''s2'']
        \<and> length (Servers c) = 2"
    using AllocateChunk_replica_count [OF n f, of 0, THEN conjunct2]
    by (auto simp: s ReplicationFactor_def)
  then show ?thesis
    by (intro conjI n f s)
qed

subsection \<open>Chunk handles are distinct\<close>

lemma digit_char_val: "d < 10 \<Longrightarrow> of_char (digit_char d) = (48 + d :: nat)"
  by (auto simp: digit_char_def less_Suc_eq numeral_eq_Suc nth_Cons')

lemma digit_char_not_minus: "d < 10 \<Longrightarrow> digit_char d \<noteq> CHR ''-''"
  by (auto simp: digit_char_def less_Suc_eq numeral_eq_Suc nth_Cons')

lemma digits_value_snoc: "digits_value (s @ [c]) = 10 * digits_value s + (of_char c - 48)"
  by (simp add: digits_value_def)

lemma digits_value_digits: "digits_value (digits n) = n"
proof (induction n rule: digits.induct)
  case (1 n)
  show ?case
  proof (cases "n < 10")
    case True
    then show ?thesis
      by (subst digits.simps) (simp add: digits_value_def digit_char_val)
  next
    case False
    then have "digits_value (digits (n div 10)) = n div 10" using 1 by simp
    then show ?thesis
      using False by (subst digits.simps) (simp add: digits_value_snoc digit_char_val)
  qed
qed

lemma digits_inj: "digits n = digits k \<Longrightarrow> n = k"
  by (metis digits_value_digits)

lemma hd_digits: "hd (digits n) \<noteq> CHR ''-''"
proof (induction n rule: digits.induct)
  case (1 n)
  show ?case
  proof (cases "n < 10")
    case True
    then show ?thesis by (subst digits.simps) (simp add: digit_char_not_minus)
  next
    case False
    have ne: "digits (n div 10) \<noteq> []" by (subst digits.simps) simp
    show ?thesis using False 1 ne by (subst digits.simps) simp
  qed
qed

lemma sprint_d_inj: "sprint_d i = sprint_d j \<Longrightarrow> i = j"
proof -
  assume e: "sprint_d i = sprint_d j"
  have neg: "\<And>a b. CHR ''-'' # digits a \<noteq> digits b"
    using hd_digits by (metis list.sel(1))
  show ?thesis
  proof (cases "i < 0")
    case True
    then have "j < 0" using e neg by (auto simp: sprint_d_def split: if_splits)
    then have "nat (- i) = nat (- j)" using e True by (simp add: sprint_d_def digits_inj)
    then show ?thesis using True \<open>j < 0\<close> by simp
  next
    case False
    then have "\<not> j < 0" using e neg [of "nat (- j)" "nat i"] by (auto simp: sprint_d_def split: if_splits)
    then have "nat i = nat j" using e False by (simp add: sprint_d_def digits_inj)
    then show ?thesis using False \<open>\<not> j < 0\<close> by simp
  qed
qed

lemma chunk_name_inj: "chunk_name a = chunk_name b \<Longrightarrow> a = b"
  by (auto simp: chunk_name_def dest!: sprint_d_inj intro: signed_word_eqI)

lemma chunk_name_offsets_distinct:
  assumes "N \<le> 2 ^ 64"
  shows "distinct (map (\<lambda>i. chunk_name (n + of_nat i)) [0..<N])"
proof -
  have "inj_on (\<lambda>i. chunk_name (n + of_nat i)) (set [0..<N])"
  proof (rule inj_onI)
    fix i j assume i: "i \<in> set [0..<N]" and j: "j \<in> set [0..<N]"
      and e: "chunk_name (n + of_nat i) = chunk_name (n + of_nat j)"
    have "(of_nat i :: 64 word) = of_nat j" using chunk_name_inj [OF e] by simp
    then have "take_bit 64 i = take_bit 64 j" by (simp add: word_of_nat_eq_iff)
    moreover have "i < 2 ^ 64" "j < 2 ^ 64" using i j assms by auto
    ultimately show "i = j" by (simp add: take_bit_nat_eq_self)
  qed
  then show ?thesis by (simp add: distinct_map)
qed

subsection \<open>Sequences of allocations\<close>

lemma handleAllocateChunk_ok:
  assumes "p \<noteq> []" and "files m p = Some f" and "servers m \<noteq> []"
  shows "handleAllocateChunk m ''POST'' p t
       = ((StatusOK, JSONChunk (new_chunk (nextChunk m) (servers m) t)),
          m\<lparr>nextChunk := nextChunk m + 1,
            chunks := (chunks m)(chunk_name (nextChunk m) \<mapsto> new_chunk (nextChunk m) (servers m) t),
            files := (files m)(p \<mapsto> f\<lparr>Chunks := Chunks f @ [chunk_name (nextChunk m)]\<rparr>)\<rparr>)"
  using assms
  by (simp add: handleAllocateChunk_def Let_def selectServers_take new_chunk_def
      ReplicationFactor_def)

lemma handleAllocateChunk_unavailable:
  assumes "p \<noteq> []" and "files m p = Some f" and "servers m = []"
  shows "handleAllocateChunk m ''POST'' p t
       = (http_Error ''No available servers'' StatusServiceUnavailable,
          m\<lparr>nextChunk := nextChunk m + 1\<rparr>)"
  using assms
  by (simp add: handleAllocateChunk_def Let_def selectServers_take)

lemma allocate_seq_ok:
  assumes "p \<noteq> []" and "files m p = Some f" and "servers m \<noteq> []"
  shows "fst (allocate_seq m p ts)
           = map (\<lambda>c. (StatusOK, JSONChunk c)) (new_chunks (nextChunk m) (servers m) ts)
       \<and> nextChunk (snd (allocate_seq m p ts)) = nextChunk m + of_nat (length ts)
       \<and> servers (snd (allocate_seq m p ts)) = servers m
       \<and> chunks (snd (allocate_seq m p ts))
           = store_chunks (chunks m) (new_chunks (nextChunk m) (servers m) ts)
       \<and> files (snd (allocate_seq m p ts))
           = (files m)(p \<mapsto> f\<lparr>Chunks := Chunks f
                 @ map Handle (new_chunks (nextChunk m) (servers m) ts)\<rparr>)"
  using assms(2,3)
proof (induction ts arbitrary: m f)
  case Nil
  then show ?case by (simp add: map_upd_triv)
next
  case (Cons t ts)
  define m1 where "m1 = snd (handleAllocateChunk m ''POST'' p t)"
  define f1 where "f1 = f\<lparr>Chunks := Chunks f @ [chunk_name (nextChunk m)]\<rparr>"
  have a: "handleAllocateChunk m ''POST'' p t
       = ((StatusOK, JSONChunk (new_chunk (nextChunk m) (servers m) t)), m1)"
    unfolding m1_def by (simp add: handleAllocateChunk_ok [OF assms(1) Cons.prems])
  have c: "nextChunk m1 = nextChunk m + 1" "servers m1 = servers m"
      "chunks m1 = (chunks m)(chunk_name (nextChunk m) \<mapsto> new_chunk (nextChunk m) (servers m) t)"
      "files m1 = (files m)(p \<mapsto> f1)"
    unfolding m1_def f1_def by (simp_all add: handleAllocateChunk_ok [OF assms(1) Cons.prems])
  have f1: "files m1 p = Some f1" by (simp add: c)
  have s1: "servers m1 \<noteq> []" using Cons.prems by (simp add: c)
  have h: "Handle (new_chunk (nextChunk m) (servers m) t) = chunk_name (nextChunk m)"
    by (simp add: new_chunk_def)
  have s: "allocate_seq m p (t # ts)
         = ((StatusOK, JSONChunk (new_chunk (nextChunk m) (servers m) t)) # fst (allocate_seq m1 p ts),
            snd (allocate_seq m1 p ts))"
    by (simp add: a split_beta)
  note ih = Cons.IH [OF f1 s1]
  have i1: "fst (allocate_seq m1 p ts)
           = map (\<lambda>c. (StatusOK, JSONChunk c)) (new_chunks (nextChunk m + 1) (servers m) ts)"
    using ih by (simp add: c(1,2) del: fun_upd_apply)
  have i2: "nextChunk (snd (allocate_seq m1 p ts)) = nextChunk m + of_nat (length (t # ts))"
    using ih by (simp add: c(1))
  have i3: "servers (snd (allocate_seq m1 p ts)) = servers m"
    using ih by (simp add: c(2))
  have i4: "chunks (snd (allocate_seq m1 p ts))
           = store_chunks (chunks m) (new_chunks (nextChunk m) (servers m) (t # ts))"
    using ih by (simp add: c(1,2,3) h del: fun_upd_apply)
  have "files (snd (allocate_seq m1 p ts))
           = (files m1)(p \<mapsto> f1\<lparr>Chunks := Chunks f1
                 @ map Handle (new_chunks (nextChunk m + 1) (servers m) ts)\<rparr>)"
    using ih by (simp add: c(1,2) del: fun_upd_apply)
  also have "\<dots> = (files m)(p \<mapsto> f\<lparr>Chunks := Chunks f
                 @ map Handle (new_chunks (nextChunk m) (servers m) (t # ts))\<rparr>)"
    by (simp add: c(4) f1_def h)
  finally have i5: "files (snd (allocate_seq m1 p ts))
           = (files m)(p \<mapsto> f\<lparr>Chunks := Chunks f
                 @ map Handle (new_chunks (nextChunk m) (servers m) (t # ts))\<rparr>)" .
  show ?case
    unfolding s fst_conv snd_conv using i1 i2 i3 i4 i5 by simp
qed

lemma new_chunks_length [simp]: "length (new_chunks n srvs ts) = length ts"
  by (induction ts arbitrary: n) auto

lemma new_chunks_handles:
  "map Handle (new_chunks n srvs ts) = map (\<lambda>i. chunk_name (n + of_nat i)) [0..<length ts]"
proof (induction ts arbitrary: n)
  case Nil
  then show ?case by simp
next
  case (Cons t ts)
  have "map (\<lambda>i. chunk_name (n + of_nat i)) [0..<length (t # ts)]
      = chunk_name n # map (\<lambda>i. chunk_name (n + of_nat (Suc i))) [0..<length ts]"
    by (simp add: map_upt_Suc del: upt_Suc)
  also have "\<dots> = chunk_name n # map (\<lambda>i. chunk_name (n + 1 + of_nat i)) [0..<length ts]"
    by (simp add: add.assoc add.commute [of "1 :: 64 word"])
  finally show ?case
    using Cons [of "n + 1"] by (simp add: new_chunk_def)
qed

lemma new_chunks_distinct:
  "length ts \<le> 2 ^ 64 \<Longrightarrow> distinct (map Handle (new_chunks n srvs ts))"
  by (simp add: new_chunks_handles chunk_name_offsets_distinct)

lemma store_chunks_other:
  "h \<notin> Handle ` set cs \<Longrightarrow> store_chunks tb cs h = tb h"
  by (induction cs arbitrary: tb) auto

lemma store_chunks_lookup:
  "distinct (map Handle cs) \<Longrightarrow> c \<in> set cs \<Longrightarrow>
   store_chunks tb cs (Handle c) = Some c"
proof (induction cs arbitrary: tb)
  case Nil
  then show ?case by simp
next
  case (Cons x cs)
  show ?case
  proof (cases "c \<in> set cs")
    case True
    then show ?thesis using Cons by simp
  next
    case False
    then have "c = x" using Cons.prems by simp
    then show ?thesis using Cons.prems by (simp add: store_chunks_other)
  qed
qed

lemma store_chunks_map:
  "distinct (map Handle cs) \<Longrightarrow>
   map (store_chunks tb cs) (map Handle cs) = map Some cs"
  by (simp add: store_chunks_lookup)

text \<open>
  C4, amended. For a file path \<open>p\<close> known to the Master (non-empty, with a \<open>FileInfo\<close>
  \<open>f\<close>), when at least one server is registered, AllocateChunk(p) issued \<open>N\<close> times in
  sequence, at the times \<open>ts\<close>, with \<open>N\<close> at most \<open>2 ^ 64\<close> (the counter has 64 bits),
  answers 200 each time with chunks \<open>cs\<close> of pairwise distinct handles, and
  GetChunkLocations(p) then returns the records of the chunks the file had, followed by
  exactly \<open>cs\<close>, in the order of the calls.
\<close>

theorem AllocateChunk_sequence:
  assumes "p \<noteq> []" and "files m p = Some f" and "servers m \<noteq> []" and "length ts \<le> 2 ^ 64"
  shows "\<exists>cs. length cs = length ts
     \<and> fst (allocate_seq m p ts) = map (\<lambda>c. (StatusOK, JSONChunk c)) cs
     \<and> distinct (map Handle cs)
     \<and> fst (handleGetChunks (snd (allocate_seq m p ts)) p)
         = (StatusOK, JSONChunks (map (chunks (snd (allocate_seq m p ts))) (Chunks f) @ map Some cs))"
proof -
  let ?cs = "new_chunks (nextChunk m) (servers m) ts"
  have d: "distinct (map Handle ?cs)" using assms(4) by (rule new_chunks_distinct)
  have "fst (handleGetChunks (snd (allocate_seq m p ts)) p)
         = (StatusOK, JSONChunks (map (chunks (snd (allocate_seq m p ts))) (Chunks f) @ map Some ?cs))"
    using assms(1) store_chunks_map [OF d, of "chunks m"]
    by (simp add: allocate_seq_ok [OF assms(1-3)] handleGetChunks_def)
  then show ?thesis
    using d by (intro exI [of _ ?cs]) (simp add: allocate_seq_ok [OF assms(1-3)])
qed

theorem AllocateChunk_sequence_witness:
  "''f'' \<noteq> []
 \<and> files one_server_master ''f'' = Some \<lparr>Name = ''f'', Chunks = [], FSize = 0\<rparr>
 \<and> servers one_server_master \<noteq> []
 \<and> length [0, 5 :: int] \<le> 2 ^ 64
 \<and> (\<exists>cs. length cs = length [0, 5 :: int]
     \<and> fst (allocate_seq one_server_master ''f'' [0, 5]) = map (\<lambda>c. (StatusOK, JSONChunk c)) cs
     \<and> distinct (map Handle cs)
     \<and> fst (handleGetChunks (snd (allocate_seq one_server_master ''f'' [0, 5])) ''f'')
         = (StatusOK, JSONChunks (map Some cs)))"
proof -
  have f: "files one_server_master ''f'' = Some \<lparr>Name = ''f'', Chunks = [], FSize = 0\<rparr>"
    by (simp add: one_server_master_def eval_defs)
  have s: "servers one_server_master \<noteq> []"
    by (simp add: one_server_master_def eval_defs)
  have n: "''f'' \<noteq> []" by simp
  have l: "length [0, 5 :: int] \<le> 2 ^ 64" by simp
  show ?thesis
    using f s AllocateChunk_sequence [OF n f s l] by (simp del: allocate_seq.simps)
qed

text \<open>
  C4 as stated fails when no server is registered: the file \<open>f\<close> exists, one
  AllocateChunk(f) answers 503 and yields no handle, and GetChunkLocations(f) returns
  an empty list.
\<close>

theorem AllocateChunk_sequence_no_server_counterexample:
  "files no_server_master ''f'' = Some \<lparr>Name = ''f'', Chunks = [], FSize = 0\<rparr>
 \<and> fst (allocate_seq no_server_master ''f'' [0])
     = [(StatusServiceUnavailable, ErrorText (''No available servers'' @ [CHR 0x0A]))]
 \<and> fst (handleGetChunks (snd (allocate_seq no_server_master ''f'' [0])) ''f'')
     = (StatusOK, JSONChunks [])"
  by (simp add: eval_defs)

subsection \<open>The invariant of the tables, and failed allocations\<close>

lemma handleRegisterServer_tables [simp]:
  "files (snd (handleRegisterServer m method a)) = files m"
  "chunks (snd (handleRegisterServer m method a)) = chunks m"
  "nextChunk (snd (handleRegisterServer m method a)) = nextChunk m"
  by (simp_all add: handleRegisterServer_def)

lemma chunk_refs_ok_register:
  "chunk_refs_ok m \<Longrightarrow> chunk_refs_ok (snd (handleRegisterServer m method a))"
  by (simp add: chunk_refs_ok_def)

lemma chunk_refs_ok_create:
  "chunk_refs_ok m \<Longrightarrow> chunk_refs_ok (snd (handleCreateFile m method p))"
  by (auto simp: chunk_refs_ok_def handleCreateFile_def split: option.splits if_splits)

lemma chunk_refs_ok_get:
  "chunk_refs_ok m \<Longrightarrow> chunk_refs_ok (snd (handleGetChunks m p))"
  by (auto simp: handleGetChunks_def split: option.splits)

lemma chunk_refs_ok_allocate:
  assumes "chunk_refs_ok m"
  shows "chunk_refs_ok (snd (handleAllocateChunk m method p t))"
proof (cases "method = ''POST'' \<and> p \<noteq> [] \<and> files m p \<noteq> None")
  case False
  then show ?thesis
    using assms by (auto simp: handleAllocateChunk_def)
next
  case True
  then obtain f where f: "files m p = Some f" by auto
  show ?thesis
  proof (cases "servers m = []")
    case True
    then show ?thesis
      using assms \<open>method = ''POST'' \<and> p \<noteq> [] \<and> files m p \<noteq> None\<close> f
      by (simp add: handleAllocateChunk_unavailable chunk_refs_ok_def)
  next
    case False
    have old: "\<forall>h \<in> set (Chunks f). chunks m h \<noteq> None"
      using assms f by (auto simp: chunk_refs_ok_def)
    show ?thesis
      using assms True f False old
      by (auto simp: handleAllocateChunk_ok chunk_refs_ok_def)
  qed
qed

lemma chunk_refs_ok_serve: "chunk_refs_ok m \<Longrightarrow> chunk_refs_ok (snd (serve m r))"
  by (cases r)
     (simp_all add: chunk_refs_ok_register chunk_refs_ok_create chunk_refs_ok_get
        chunk_refs_ok_allocate)

lemma chunk_refs_ok_run: "chunk_refs_ok m \<Longrightarrow> chunk_refs_ok (run m rs)"
  by (induction rs arbitrary: m) (simp_all add: chunk_refs_ok_serve)

lemma chunk_refs_ok_NewMaster: "chunk_refs_ok (NewMaster pt)"
  by (simp add: chunk_refs_ok_def NewMaster_def)

text \<open>
  C8. The invariant \<open>chunk_refs_ok\<close> (every handle in the chunk list of a \<open>FileInfo\<close> has
  a record in the chunk table) holds of the new Master, is preserved by each of the four
  handlers, whatever the method, the parameter and the time, and so holds of every state
  that a sequence of requests reaches.
\<close>

theorem chunk_refs_invariant:
  "chunk_refs_ok (NewMaster pt)
 \<and> (chunk_refs_ok m \<longrightarrow>
      chunk_refs_ok (snd (handleRegisterServer m method a))
    \<and> chunk_refs_ok (snd (handleCreateFile m method p))
    \<and> chunk_refs_ok (snd (handleAllocateChunk m method p t))
    \<and> chunk_refs_ok (snd (handleGetChunks m p)))
 \<and> chunk_refs_ok (run (NewMaster pt) rs)"
  by (simp add: chunk_refs_ok_NewMaster chunk_refs_ok_register chunk_refs_ok_create
      chunk_refs_ok_get chunk_refs_ok_allocate chunk_refs_ok_run)

lemma run_example:
  "files (run (NewMaster 8080) [Register ''POST'' ''s1'', Create ''POST'' ''f'', Allocate ''POST'' ''f'' 0]) ''f''
     = Some \<lparr>Name = ''f'', Chunks = [''chunk_1''], FSize = 0\<rparr>"
  by (simp add: eval_defs)

theorem chunk_refs_invariant_witness:
  "files (run (NewMaster 8080) [Register ''POST'' ''s1'', Create ''POST'' ''f'', Allocate ''POST'' ''f'' 0]) ''f''
     = Some \<lparr>Name = ''f'', Chunks = [''chunk_1''], FSize = 0\<rparr>
 \<and> chunks (run (NewMaster 8080) [Register ''POST'' ''s1'', Create ''POST'' ''f'', Allocate ''POST'' ''f'' 0])
      ''chunk_1'' \<noteq> None"
proof -
  have "chunk_refs_ok (run (NewMaster 8080)
          [Register ''POST'' ''s1'', Create ''POST'' ''f'', Allocate ''POST'' ''f'' 0])"
    using chunk_refs_invariant [of 8080 "NewMaster 8080" "''POST''" "''s1''" "''f''" 0
        "[Register ''POST'' ''s1'', Create ''POST'' ''f'', Allocate ''POST'' ''f'' 0]"]
    by blast
  then show ?thesis
    using run_example unfolding chunk_refs_ok_def by fastforce
qed

lemma allocate_seq_unavailable:
  assumes "p \<noteq> []" and "files m p = Some f" and "servers m = []"
  shows "allocate_seq m p ts
       = (replicate (length ts) (http_Error ''No available servers'' StatusServiceUnavailable),
          m\<lparr>nextChunk := nextChunk m + of_nat (length ts)\<rparr>)"
  using assms(2,3)
proof (induction ts arbitrary: m)
  case Nil
  then show ?case by simp
next
  case (Cons t ts)
  have a: "handleAllocateChunk m ''POST'' p t
       = (http_Error ''No available servers'' StatusServiceUnavailable,
          m\<lparr>nextChunk := nextChunk m + 1\<rparr>)"
    using handleAllocateChunk_unavailable [OF assms(1) Cons.prems] .
  have "allocate_seq (m\<lparr>nextChunk := nextChunk m + 1\<rparr>) p ts
       = (replicate (length ts) (http_Error ''No available servers'' StatusServiceUnavailable),
          m\<lparr>nextChunk := nextChunk m + 1 + of_nat (length ts)\<rparr>)"
    using Cons.IH [of "m\<lparr>nextChunk := nextChunk m + 1\<rparr>"] Cons.prems by simp
  then show ?case
    by (simp add: a add.assoc add.commute [of "1 :: 64 word"])
qed

text \<open>
  C10. When no server is registered, AllocateChunk for a known path answers 503 and
  changes nothing but the counter, which it increments: the file table and the chunk
  table are as before. After \<open>k\<close> such attempts the counter has advanced by \<open>k\<close>, and
  once a server registers, the next allocation gets the handle of the counter's value
  \<open>k\<close> steps on.
\<close>

theorem AllocateChunk_unavailable_skips_handle:
  assumes "p \<noteq> []" and "files m p = Some f" and "servers m = []"
  shows "handleAllocateChunk m ''POST'' p t
           = (http_Error ''No available servers'' StatusServiceUnavailable,
              m\<lparr>nextChunk := nextChunk m + 1\<rparr>)
       \<and> files (snd (handleAllocateChunk m ''POST'' p t)) = files m
       \<and> chunks (snd (handleAllocateChunk m ''POST'' p t)) = chunks m
       \<and> fst (allocate_seq m p ts)
           = replicate (length ts) (http_Error ''No available servers'' StatusServiceUnavailable)
       \<and> snd (allocate_seq m p ts) = m\<lparr>nextChunk := nextChunk m + of_nat (length ts)\<rparr>
       \<and> (a \<noteq> [] \<longrightarrow>
            (\<exists>c. fst (handleAllocateChunk
                        (snd (handleRegisterServer (snd (allocate_seq m p ts)) ''POST'' a))
                        ''POST'' p t) = (StatusOK, JSONChunk c)
               \<and> Handle c = chunk_name (nextChunk m + of_nat (length ts))))"
proof -
  have u: "handleAllocateChunk m ''POST'' p t
           = (http_Error ''No available servers'' StatusServiceUnavailable,
              m\<lparr>nextChunk := nextChunk m + 1\<rparr>)"
    using handleAllocateChunk_unavailable [OF assms] .
  have s: "allocate_seq m p ts
       = (replicate (length ts) (http_Error ''No available servers'' StatusServiceUnavailable),
          m\<lparr>nextChunk := nextChunk m + of_nat (length ts)\<rparr>)"
    using allocate_seq_unavailable [OF assms] .
  have r: "a \<noteq> [] \<Longrightarrow>
        \<exists>c. fst (handleAllocateChunk
                        (snd (handleRegisterServer (snd (allocate_seq m p ts)) ''POST'' a))
                        ''POST'' p t) = (StatusOK, JSONChunk c)
               \<and> Handle c = chunk_name (nextChunk m + of_nat (length ts))"
  proof -
    assume a: "a \<noteq> []"
    define m2 where "m2 = snd (handleRegisterServer (snd (allocate_seq m p ts)) ''POST'' a)"
    have f2: "files m2 p = Some f" unfolding m2_def using assms(2) by (simp add: s)
    have s2: "servers m2 \<noteq> []"
      unfolding m2_def using a assms(3) by (simp add: s handleRegisterServer_def)
    have n2: "nextChunk m2 = nextChunk m + of_nat (length ts)" unfolding m2_def by (simp add: s)
    show ?thesis
      unfolding m2_def [symmetric]
      by (simp add: handleAllocateChunk_ok [OF assms(1) f2 s2] n2 new_chunk_def)
  qed
  show ?thesis
    using r by (simp add: u s)
qed

theorem AllocateChunk_unavailable_skips_handle_witness:
  "''f'' \<noteq> []
 \<and> files no_server_master ''f'' = Some \<lparr>Name = ''f'', Chunks = [], FSize = 0\<rparr>
 \<and> servers no_server_master = []
 \<and> snd (allocate_seq no_server_master ''f'' [0, 1]) = no_server_master\<lparr>nextChunk := 3\<rparr>
 \<and> (\<exists>c. fst (handleAllocateChunk
               (snd (handleRegisterServer (snd (allocate_seq no_server_master ''f'' [0, 1]))
                      ''POST'' ''s1''))
               ''POST'' ''f'' 2) = (StatusOK, JSONChunk c)
        \<and> Handle c = ''chunk_3'')"
proof -
  have f: "files no_server_master ''f'' = Some \<lparr>Name = ''f'', Chunks = [], FSize = 0\<rparr>"
    by (simp add: eval_defs)
  have s: "servers no_server_master = []"
    by (simp add: eval_defs)
  have n: "''f'' \<noteq> []" by simp
  have c: "nextChunk no_server_master = 1" by (simp add: eval_defs)
  have h: "chunk_name 3 = ''chunk_3''" by (simp add: eval_defs)
  note t = AllocateChunk_unavailable_skips_handle [OF n f s, of 2 "[0, 1]" "''s1''"]
  have t1: "snd (allocate_seq no_server_master ''f'' [0, 1]) = no_server_master\<lparr>nextChunk := 3\<rparr>"
    using t by (simp add: c del: allocate_seq.simps)
  have t2: "\<exists>c. fst (handleAllocateChunk
               (snd (handleRegisterServer (snd (allocate_seq no_server_master ''f'' [0, 1]))
                      ''POST'' ''s1''))
               ''POST'' ''f'' 2) = (StatusOK, JSONChunk c)
        \<and> Handle c = ''chunk_3''"
    using t [THEN conjunct2, THEN conjunct2, THEN conjunct2, THEN conjunct2, THEN conjunct2]
    by (simp add: c h del: allocate_seq.simps)
  show ?thesis
    by (intro conjI n f s t1 t2)
qed

section \<open>Properties of the library functions\<close>

lemmas eval_url =
  query_param_def strings_Cut_def Query_Get_def ParseQuery_def query_pair_def
  QueryUnescape_def is_ctl_def ishex_def List.map_filter_simps master_http_def
  json_chunk_def json_string_def rune_len_def Clean_def spaced_file_world_def

lemma split_on_notin: "c \<notin> set s \<Longrightarrow> split_on c s = [s]"
  by (induction s) auto

lemma strings_Cut_notin: "c \<notin> set s \<Longrightarrow> strings_Cut c s = (s, [])"
  by (induction s) (auto simp: strings_Cut_def)

lemma strings_Cut_first: "c \<notin> set a \<Longrightarrow> strings_Cut c (a @ c # b) = (a, b)"
  by (induction a) (auto simp: strings_Cut_def)

lemma valid_escapes_no_percent: "CHR ''%'' \<notin> set s \<Longrightarrow> valid_escapes s"
  by (induction s) auto

lemma unescape_query_plain:
  "CHR ''%'' \<notin> set s \<Longrightarrow> CHR ''+'' \<notin> set s \<Longrightarrow> unescape_query s = s"
  by (induction s) auto

lemma QueryUnescape_plain:
  "CHR ''%'' \<notin> set s \<Longrightarrow> CHR ''+'' \<notin> set s \<Longrightarrow> QueryUnescape s = Some s"
  by (simp add: QueryUnescape_def valid_escapes_no_percent unescape_query_plain)

lemma url_safe_iff:
  "url_safe v \<longleftrightarrow> \<not> list_ex is_ctl v \<and> CHR '' '' \<notin> set v \<and> CHR ''#'' \<notin> set v
     \<and> CHR ''&'' \<notin> set v \<and> CHR '';'' \<notin> set v \<and> CHR ''%'' \<notin> set v \<and> CHR ''+'' \<notin> set v"
  by (auto simp: url_safe_def list_all_iff list_ex_iff)

text \<open>
  A safe value under a safe key without \<open>=\<close> reaches the handler as it is; so for the
  two keys of the client.
\<close>

lemma query_param_safe:
  assumes "url_safe v" and "url_safe key" and "CHR ''='' \<notin> set key"
  shows "query_param key v = Param v"
proof -
  have v: "\<not> list_ex is_ctl v" "CHR '' '' \<notin> set v" "CHR ''#'' \<notin> set v" "CHR ''&'' \<notin> set v"
      "CHR '';'' \<notin> set v" "CHR ''%'' \<notin> set v" "CHR ''+'' \<notin> set v"
    using assms(1) by (simp_all add: url_safe_iff)
  have k: "CHR '' '' \<notin> set key" "CHR ''&'' \<notin> set key"
      "CHR '';'' \<notin> set key" "CHR ''%'' \<notin> set key" "CHR ''+'' \<notin> set key"
    using assms(2) by (simp_all add: url_safe_iff)
  let ?q = "key @ CHR ''='' # v"
  have sp: "split_on (CHR ''&'') ?q = [?q]"
    using v k by (intro split_on_notin) simp
  have cut: "strings_Cut (CHR ''='') ?q = (key, v)"
    using strings_Cut_first [OF assms(3), of v] by simp
  have pair: "query_pair ?q = Some (key, v)"
    using v k by (simp add: query_pair_def cut QueryUnescape_plain)
  have "Query_Get ?q key = v"
    by (simp add: Query_Get_def ParseQuery_def sp pair List.map_filter_simps)
  then show ?thesis
    using v k by (simp add: query_param_def strings_Cut_notin Let_def)
qed

lemma query_param_file: "url_safe v \<Longrightarrow> query_param ''file'' v = Param v"
  by (rule query_param_safe) (simp_all add: url_safe_def is_ctl_def)

lemma query_param_chunk: "url_safe v \<Longrightarrow> query_param ''chunk'' v = Param v"
  by (rule query_param_safe) (simp_all add: url_safe_def is_ctl_def)

lemma json_copy_ascii:
  "list_all (\<lambda>c. (of_char c :: nat) < 128) s \<Longrightarrow> json_copy 0 s = s"
  by (induction s) (auto simp: rune_len_def)

lemma json_string_ascii:
  "list_all (\<lambda>c. (of_char c :: nat) < 128) s \<Longrightarrow> json_string s = s"
  by (simp add: json_string_def json_copy_ascii)

subsection \<open>Chunk handles pass through URLs and JSON unchanged\<close>

lemma digit_char_all: "list_all P ''0123456789'' \<Longrightarrow> d < 10 \<Longrightarrow> P (digit_char d)"
  by (auto simp: digit_char_def less_Suc_eq numeral_eq_Suc nth_Cons')

lemma digits_all:
  assumes "list_all P ''0123456789''"
  shows "list_all P (digits n)"
proof (induction n rule: digits.induct)
  case (1 n)
  show ?case
  proof (cases "n < 10")
    case True
    then show ?thesis
      using digit_char_all [OF assms, of n] by (subst digits.simps) simp
  next
    case False
    have "P (digit_char (n mod 10))" by (rule digit_char_all [OF assms]) simp
    then show ?thesis using False 1 by (subst digits.simps) simp
  qed
qed

lemma chunk_name_all:
  assumes "list_all P ''chunk_-0123456789''"
  shows "list_all P (chunk_name n)"
proof -
  have p: "list_all P ''chunk_''" "P CHR ''-''" "list_all P ''0123456789''"
    using assms by simp_all
  have "list_all P (sprint_d (sint n))"
    using p(2) digits_all [OF p(3)] by (simp add: sprint_d_def)
  then show ?thesis
    using p(1) by (simp add: chunk_name_def)
qed

lemma chunk_name_url_safe: "url_safe (chunk_name n)"
  unfolding url_safe_def by (rule chunk_name_all) (simp add: is_ctl_def)

lemma chunk_name_json [simp]: "json_string (chunk_name n) = chunk_name n"
  by (rule json_string_ascii, rule chunk_name_all) simp

lemma chunk_name_param [simp]: "query_param ''chunk'' (chunk_name n) = Param (chunk_name n)"
  by (simp add: query_param_chunk chunk_name_url_safe)

section \<open>Properties of the Chunkserver\<close>

text \<open>
  C6. For a chunk handle \<open>h\<close> (non-empty: the handler reads the empty string as a
  missing parameter) and bytes \<open>d\<close>, StoreChunk answers 200 and has put \<open>d\<close> under \<open>h\<close>
  in the in-memory cache, whatever the disk write does. When the disk write fails,
  whatever the failure leaves on disk, the only trace is the log line "Failed to write
  chunk to disk" before the line "Stored chunk", and a RetrieveChunk that follows
  answers 200 with \<open>d\<close>.
\<close>

theorem StoreChunk_success_despite_disk_failure:
  assumes "h \<noteq> []"
  shows "fst (handleWrite cs dk ''POST'' h (Some d) wr) = (StatusOK, [])
       \<and> cs_chunks (fst (snd (snd (handleWrite cs dk ''POST'' h (Some d) wr)))) h = Some d
       \<and> handleWrite cs dk ''POST'' h (Some d) (WriteErr left)
           = ((StatusOK, []),
              [LogDiskWriteFailed, LogStored h (length d) (address cs)],
              cs\<lparr>cs_chunks := (cs_chunks cs)(h \<mapsto> d)\<rparr>,
              dk(filepath_Join (dataDir cs) h := left))
       \<and> status_code (fst (fst (handleWrite cs dk ''POST'' h (Some d) (WriteErr left)))) = 200
       \<and> cs_chunks (fst (snd (snd (handleWrite cs dk ''POST'' h (Some d) (WriteErr left))))) h = Some d
       \<and> fst (handleRead (fst (snd (snd (handleWrite cs dk ''POST'' h (Some d) (WriteErr left)))))
                (snd (snd (snd (handleWrite cs dk ''POST'' h (Some d) (WriteErr left))))) h)
           = (StatusOK, d)"
  using assms by (cases wr) (simp_all add: handleWrite_def handleRead_def Let_def)

theorem StoreChunk_success_despite_disk_failure_witness:
  "''chunk_1'' \<noteq> []
 \<and> fst (handleWrite (NewChunkserver ''s1'' ''m'') Map.empty ''POST'' ''chunk_1'' (Some ''abc'')
          (WriteErr None)) = (StatusOK, [])
 \<and> fst (handleRead
      (fst (snd (snd (handleWrite (NewChunkserver ''s1'' ''m'') Map.empty ''POST'' ''chunk_1''
                        (Some ''abc'') (WriteErr None)))))
      (snd (snd (snd (handleWrite (NewChunkserver ''s1'' ''m'') Map.empty ''POST'' ''chunk_1''
                        (Some ''abc'') (WriteErr None)))))
      ''chunk_1'') = (StatusOK, ''abc'')
 \<and> snd (snd (snd (handleWrite (NewChunkserver ''s1'' ''m'') Map.empty ''POST'' ''chunk_1''
                     (Some ''abc'') (WriteErr None))))
       (filepath_Join (dataDir (NewChunkserver ''s1'' ''m'')) ''chunk_1'') = None"
  using StoreChunk_success_despite_disk_failure
          [of "''chunk_1''" "NewChunkserver ''s1'' ''m''" Map.empty "''abc''" WriteOK None]
  by (simp add: handleWrite_def handleRead_def NewChunkserver_def filepath_Join_def Clean_def)

section \<open>Properties of the Client\<close>

lemma chunk_name_nonempty [simp]: "chunk_name n \<noteq> []"
  by (simp add: chunk_name_def)

lemma post_write_None_iff:
  "query_param ''chunk'' h = Param h \<Longrightarrow>
   post_write env s h d ns = None \<longleftrightarrow> \<not> reach env s \<or> ns s = None"
  by (auto simp: post_write_def split_beta Let_def split: option.splits)

lemma post_write_dom:
  "post_write env s h d ns = Some (r, ns1) \<Longrightarrow> (ns1 x = None) = (ns x = None)"
  by (auto simp: post_write_def split_beta Let_def split: if_splits option.splits delivery.splits)

lemma post_write_new:
  "h \<noteq> [] \<Longrightarrow> query_param ''chunk'' h = Param h \<Longrightarrow>
   post_write env s h d ns = Some (r, ns1) \<Longrightarrow> holds_chunk ns1 s h d"
  by (auto simp: post_write_def handleWrite_def holds_chunk_def split_beta Let_def
      split: if_splits option.splits write_outcome.splits)

lemma post_write_keep:
  "h \<noteq> [] \<Longrightarrow> query_param ''chunk'' h = Param h \<Longrightarrow>
   post_write env s' h d ns = Some (r, ns1) \<Longrightarrow> holds_chunk ns s h d \<Longrightarrow>
   holds_chunk ns1 s h d"
  by (auto simp: post_write_def handleWrite_def holds_chunk_def split_beta Let_def
      split: if_splits option.splits write_outcome.splits)


lemma write_replicas_keep:
  assumes "h \<noteq> []" and qp: "query_param ''chunk'' h = Param h"
  shows "holds_chunk ns s h d \<Longrightarrow> holds_chunk (snd (write_replicas env h d srvs ns)) s h d"
proof (induction srvs arbitrary: ns)
  case Nil
  then show ?case by simp
next
  case (Cons a srvs)
  show ?case
  proof (cases "post_write env a h d ns")
    case None
    then show ?thesis using Cons by (simp add: split_beta)
  next
    case (Some r)
    then obtain resp ns1 where r: "post_write env a h d ns = Some (resp, ns1)" by (cases r) auto
    have "holds_chunk ns1 s h d" using post_write_keep [OF assms r Cons.prems] .
    then show ?thesis using r Cons.IH by simp
  qed
qed

lemma write_replicas_holds:
  assumes "h \<noteq> []" and qp: "query_param ''chunk'' h = Param h"
  shows "s \<in> set srvs \<Longrightarrow> reach env s \<Longrightarrow> ns s \<noteq> None \<Longrightarrow>
   holds_chunk (snd (write_replicas env h d srvs ns)) s h d"
proof (induction srvs arbitrary: ns)
  case Nil
  then show ?case by simp
next
  case (Cons a srvs)
  show ?case
  proof (cases "post_write env a h d ns")
    case None
    then have "s \<noteq> a" using Cons.prems by (auto simp: post_write_None_iff [OF qp])
    then show ?thesis using None Cons by (simp add: split_beta)
  next
    case (Some r)
    then obtain resp ns1 where r: "post_write env a h d ns = Some (resp, ns1)" by (cases r) auto
    show ?thesis
    proof (cases "s = a")
      case True
      then have "holds_chunk ns1 s h d" using post_write_new [OF assms r] by simp
      then show ?thesis using r write_replicas_keep [OF assms] by simp
    next
      case False
      then have "s \<in> set srvs" using Cons.prems by simp
      moreover have "ns1 s \<noteq> None" using post_write_dom [OF r] Cons.prems by simp
      ultimately show ?thesis using r Cons.IH [OF _ Cons.prems(2)] by simp
    qed
  qed
qed

lemma createFile_nodes [simp]: "nodes (snd (createFile env p w)) = nodes w"
  by (simp add: createFile_def split_beta split: option.splits)

lemma master_http_Param:
  "mreach env \<Longrightarrow> query_param ''file'' p = Param q \<Longrightarrow>
   master_http env route p m = Some (serve m (route q))"
  by (simp add: master_http_def)


lemma createFile_effect:
  assumes "mreach env" and "query_param ''file'' p = Param q" and "q \<noteq> []"
  shows "servers (master (snd (createFile env p w))) = servers (master w)"
    and "nextChunk (master (snd (createFile env p w))) = nextChunk (master w)"
    and "chunks (master (snd (createFile env p w))) = chunks (master w)"
    and "files (master (snd (createFile env p w))) q
          = Some (case files (master w) q of
                    None \<Rightarrow> \<lparr>Name = q, Chunks = [], FSize = 0\<rparr> | Some f \<Rightarrow> f)"
  using assms
  by (auto simp: createFile_def master_http_Param handleCreateFile_def Let_def split_beta
      split: option.splits)

lemma createFile_servers [simp]:
  "servers (master (snd (createFile env p w))) = servers (master w)"
  by (auto simp: createFile_def master_http_def handleCreateFile_def split_beta
      split: option.splits delivery.splits)

text \<open>
  \<open>writeFile\<close> returns nil exactly when its requests get to the Master, the handler
  receives a non-empty file name and a server is registered: no property of the storage
  servers enters.
\<close>

lemma writeFile_None_iff:
  "fst (writeFile env p d w) = None \<longleftrightarrow>
     mreach env \<and> (\<exists>q. query_param ''file'' p = Param q \<and> q \<noteq> []) \<and> servers (master w) \<noteq> []"
proof (cases "mreach env")
  case False
  then show ?thesis
    by (simp add: writeFile_def master_http_def split_beta)
next
  case True
  show ?thesis
  proof (cases "query_param ''file'' p")
    case PostError
    then show ?thesis using True by (simp add: writeFile_def master_http_def split_beta)
  next
    case Refused
    then show ?thesis using True by (simp add: writeFile_def master_http_def split_beta)
  next
    case (Param q)
    show ?thesis
    proof (cases "q = []")
      case True
      then show ?thesis
        using \<open>mreach env\<close> Param
        by (simp add: writeFile_def master_http_def split_beta handleAllocateChunk_def
            http_Error_def)
    next
      case False
      obtain f where f: "files (master (snd (createFile env p w))) q = Some f"
        using createFile_effect(4) [OF True Param False, of w] by simp
      show ?thesis
        using True Param False f
        by (simp add: writeFile_def master_http_def split_beta handleAllocateChunk_def
            Let_def selectServers_take http_Error_def ReplicationFactor_def)
    qed
  qed
qed




text \<open>
  C7, amended. For a path \<open>p\<close> that the Master receives as the name \<open>q\<close> (\<open>q\<close> is \<open>p\<close>
  itself when \<open>p\<close> has no control byte, space, \<open>#\<close>, \<open>&\<close>, \<open>;\<close>, \<open>%\<close> or \<open>+\<close>), if the
  \<open>FileInfo\<close> of \<open>q\<close> exists and has no chunks, ReadFile(p), when its request gets to the
  Master, returns the empty content and no error, and leaves the system as it was.
\<close>

theorem readFile_zero_chunks:
  assumes "mreach env" and "query_param ''file'' p = Param q" and "q \<noteq> []"
    and "files (master w) q = Some f" and "Chunks f = []"
  shows "readFile env p w = (Inr [], w)"
  using assms by (simp add: readFile_def master_http_def handleGetChunks_def)

theorem readFile_zero_chunks_witness:
  "mreach all_up \<and> query_param ''file'' ''f'' = Param ''f'' \<and> ''f'' \<noteq> []
 \<and> files (master empty_file_world) ''f'' = Some \<lparr>Name = ''f'', Chunks = [], FSize = 0\<rparr>
 \<and> readFile all_up ''f'' empty_file_world = (Inr [], empty_file_world)"
proof -
  have f: "files (master empty_file_world) ''f'' = Some \<lparr>Name = ''f'', Chunks = [], FSize = 0\<rparr>"
    by (simp add: empty_file_world_def eval_defs)
  have m: "mreach all_up" by (simp add: all_up_def)
  have q: "query_param ''file'' ''f'' = Param ''f''" by (simp add: eval_url)
  show ?thesis
    using f m q readFile_zero_chunks [of all_up "''f''" "''f''" empty_file_world
        "\<lparr>Name = ''f'', Chunks = [], FSize = 0\<rparr>"] by simp
qed

text \<open>
  C7 as stated fails for a path with a space: the \<open>FileInfo\<close> of \<open>a b\<close> exists and has no
  chunks, but the client puts the path unescaped into the request line, the server
  answers 400 Bad Request, and ReadFile returns an error.
\<close>

theorem readFile_zero_chunks_space_counterexample:
  "files (master spaced_file_world) ''a b'' = Some \<lparr>Name = ''a b'', Chunks = [], FSize = 0\<rparr>
 \<and> mreach all_up
 \<and> readFile all_up ''a b'' spaced_file_world
     = (Inl (StatusError ''failed to get chunks with status'' 400), spaced_file_world)"
  by (simp add: eval_defs eval_url)

lemma writeFile_fresh_state:
  assumes "mreach env" and "query_param ''file'' p = Param q" and "q \<noteq> []"
    and "servers (master w) \<noteq> []"
    and "case files (master w) q of None \<Rightarrow> True | Some f \<Rightarrow> Chunks f = []"
  shows "\<exists>f' c. files (master (snd (snd (writeFile env p d w)))) q = Some f'
      \<and> Chunks f' = [chunk_name (nextChunk (master w))]
      \<and> chunks (master (snd (snd (writeFile env p d w)))) (chunk_name (nextChunk (master w))) = Some c
      \<and> Handle c = chunk_name (nextChunk (master w))
      \<and> Servers c = take ReplicationFactor (servers (master w))
      \<and> nodes (snd (snd (writeFile env p d w)))
          = snd (write_replicas env (chunk_name (nextChunk (master w))) d
                   (map json_string (take ReplicationFactor (servers (master w)))) (nodes w))"
proof -
  obtain cr w1 where c: "createFile env p w = (cr, w1)" by (cases "createFile env p w")
  have w1: "servers (master w1) = servers (master w)" "nextChunk (master w1) = nextChunk (master w)"
      "nodes w1 = nodes w"
    using createFile_effect(1,2) [OF assms(1-3), of w] createFile_nodes [of env p w] c by simp_all
  have "files (master w1) q
          = Some (case files (master w) q of None \<Rightarrow> \<lparr>Name = q, Chunks = [], FSize = 0\<rparr> | Some f \<Rightarrow> f)"
    using createFile_effect(4) [OF assms(1-3), of w] c by simp
  then obtain f where f: "files (master w1) q = Some f" "Chunks f = []"
    using assms(5) by (cases "files (master w) q") auto
  have tk: "take 3 (servers (master w)) \<noteq> []" using assms(4) by (cases "servers (master w)") auto
  show ?thesis
    using assms(1-3) tk
    by (simp add: writeFile_def c w1 f master_http_def handleAllocateChunk_def Let_def
        selectServers_take split_beta ReplicationFactor_def json_chunk_def)
qed

lemma write_then_read_first_replica:
  assumes "mreach env" and "query_param ''file'' p = Param q" and "q \<noteq> []"
    and "servers (master w) \<noteq> []"
    and "case files (master w) q of None \<Rightarrow> True | Some f \<Rightarrow> Chunks f = []"
    and "reach env (json_string (hd (servers (master w))))"
    and "nodes w (json_string (hd (servers (master w)))) \<noteq> None"
    and "mreach env2" and "reach env2 (json_string (hd (servers (master w))))"
  shows "fst (readFile env2 p (snd (snd (writeFile env p d w)))) = Inr d"
proof -
  define w' where "w' = snd (snd (writeFile env p d w))"
  define h where "h = chunk_name (nextChunk (master w))"
  define s where "s = json_string (hd (servers (master w)))"
  obtain f' c where st: "files (master w') q = Some f'" "Chunks f' = [h]"
     "chunks (master w') h = Some c" "Handle c = h"
     "Servers c = take ReplicationFactor (servers (master w))"
     "nodes w' = snd (write_replicas env h d
                   (map json_string (take ReplicationFactor (servers (master w)))) (nodes w))"
    using writeFile_fresh_state [OF assms(1-5), of d] unfolding w'_def h_def by blast
  obtain rest where sv: "map json_string (Servers c) = s # rest"
    using assms(4) st(5) by (cases "servers (master w)") (auto simp: ReplicationFactor_def s_def)
  have hne: "h \<noteq> []" and hq: "query_param ''chunk'' h = Param h" and hj: "json_string h = h"
    by (simp_all add: h_def)
  have "s \<in> set (map json_string (take ReplicationFactor (servers (master w))))"
    using sv st(5) by (metis list.set_intros(1))
  then have "holds_chunk (nodes w') s h d"
    unfolding st(6) using assms(6,7) hne hq by (intro write_replicas_holds) (auto simp: s_def)
  then obtain cs dk where n: "nodes w' s = Some (cs, dk)" "cs_chunks cs h = Some d"
    by (auto simp: holds_chunk_def split: option.splits)
  have g: "get_read env2 s h (nodes w') = Some ((StatusOK, d), (nodes w')(s \<mapsto> (cs, dk)))"
    using n assms(9) hne hq by (simp add: get_read_def handleRead_def s_def)
  have gc: "master_http env2 GetChunks p (master w')
              = Some ((StatusOK, JSONChunks [Some c]), master w')"
    using st(1-3) assms(2,3,8) by (simp add: master_http_def handleGetChunks_def)
  have "fst (readFile env2 p w') = Inr d"
    by (simp add: readFile_def gc json_chunk_def sv st(4) hj g)
  then show ?thesis by (simp add: w'_def)
qed

text \<open>
  C1, amended. If WriteFile(p, d) returns nil, every server selected for the allocated
  chunk is reachable (at the address the client decodes) and its disk write succeeds,
  and the file that the Master receives for \<open>p\<close> (\<open>q\<close>, which is \<open>p\<close> itself unless \<open>p\<close> has
  one of \<open>#\<close>, \<open>&\<close>, \<open>;\<close>, \<open>%\<close>, \<open>+\<close>) had no chunk before the write (it did not exist, or
  its chunk list was empty), then a ReadFile(p) that follows, with the Master and the
  selected servers reachable, returns exactly \<open>d\<close>.
\<close>

theorem WriteFile_ReadFile_roundtrip_fresh:
  assumes "fst (writeFile env p d w) = None"
    and "query_param ''file'' p = Param q"
    and "\<forall>s \<in> set (map json_string (take ReplicationFactor (servers (master w)))).
           reach env s \<and> nodes w s \<noteq> None \<and> (\<forall>path. diskw env s path = WriteOK)"
    and "case files (master w) q of None \<Rightarrow> True | Some f \<Rightarrow> Chunks f = []"
    and "mreach env2"
    and "\<forall>s \<in> set (map json_string (take ReplicationFactor (servers (master w)))). reach env2 s"
  shows "fst (readFile env2 p (snd (snd (writeFile env p d w)))) = Inr d"
proof -
  have c: "mreach env" "q \<noteq> []" "servers (master w) \<noteq> []"
    using assms(1,2) by (auto simp: writeFile_None_iff)
  have "json_string (hd (servers (master w)))
          \<in> set (map json_string (take ReplicationFactor (servers (master w))))"
    using c(3) by (cases "servers (master w)") (simp_all add: ReplicationFactor_def)
  then have "reach env (json_string (hd (servers (master w))))"
      "nodes w (json_string (hd (servers (master w)))) \<noteq> None"
      "reach env2 (json_string (hd (servers (master w))))"
    using assms(3,6) by blast+
  then show ?thesis
    using c assms(2,4,5) by (intro write_then_read_first_replica)
qed

theorem WriteFile_ReadFile_roundtrip_fresh_witness:
  "fst (writeFile all_up ''f'' ''hello'' three_server_world) = None
 \<and> query_param ''file'' ''f'' = Param ''f''
 \<and> fst (readFile all_up ''f'' (snd (snd (writeFile all_up ''f'' ''hello'' three_server_world))))
     = Inr ''hello''"
proof -
  have s: "servers (master three_server_world) = [''s1'', ''s2'', ''s3'']"
    by (simp add: eval_defs)
  have q: "query_param ''file'' ''f'' = Param ''f''" by (simp add: eval_url)
  have 1: "fst (writeFile all_up ''f'' ''hello'' three_server_world) = None"
    by (simp add: writeFile_None_iff s q) (simp add: all_up_def)
  have 2: "\<forall>s \<in> set (map json_string (take ReplicationFactor (servers (master three_server_world)))).
           reach all_up s \<and> nodes three_server_world s \<noteq> None \<and> (\<forall>path. diskw all_up s path = WriteOK)"
    by (simp add: s ReplicationFactor_def json_string_def rune_len_def)
       (simp add: all_up_def three_server_world_def)
  have 3: "case files (master three_server_world) ''f'' of None \<Rightarrow> True | Some f \<Rightarrow> Chunks f = []"
    by (simp add: eval_defs)
  have 4: "mreach all_up" by (simp add: all_up_def)
  have 5: "\<forall>s \<in> set (map json_string (take ReplicationFactor (servers (master three_server_world)))). reach all_up s"
    by (simp add: all_up_def)
  show ?thesis
    using 1 q WriteFile_ReadFile_roundtrip_fresh [OF 1 q 2 3 4 5] by simp
qed

text \<open>
  C1 as stated fails for a file that already has a chunk: \<open>writeFile\<close> appends a new
  chunk and \<open>readFile\<close> reads the first one. After \<open>a\<close> was written to \<open>f\<close>, writing \<open>b\<close>
  succeeds with the only replica reachable and its disk write successful, and the read
  that follows returns \<open>a\<close>.
\<close>

theorem WriteFile_ReadFile_second_write_counterexample:
  "servers (master written_once_world) = [''s1'']
 \<and> reach all_up ''s1'' \<and> nodes written_once_world ''s1'' \<noteq> None
 \<and> diskw all_up ''s1'' ''chunkserver_s1/chunk_2'' = WriteOK
 \<and> fst (writeFile all_up ''f'' ''b'' written_once_world) = None
 \<and> fst (readFile all_up ''f'' (snd (snd (writeFile all_up ''f'' ''b'' written_once_world))))
     = Inr ''a''"
  by (simp add: written_once_world_def eval_defs eval_url)

text \<open>
  A path with a fragment: \<open>f#x\<close> is cut to \<open>f\<close> in the URL, so writing \<open>b\<close> to \<open>f#x\<close>
  after \<open>a\<close> was written to \<open>f\<close> appends to the file \<open>f\<close>, and reading \<open>f#x\<close> returns \<open>a\<close>.
\<close>

lemma fragment_write_reads_first_chunk:
  "query_param ''file'' ''f#x'' = Param ''f''
 \<and> fst (writeFile all_up ''f#x'' ''b'' written_once_world) = None
 \<and> fst (readFile all_up ''f#x'' (snd (snd (writeFile all_up ''f#x'' ''b'' written_once_world))))
     = Inr ''a''"
  by (simp add: written_once_world_def eval_defs eval_url)

end
